theory Spec2Isabelle
  imports Complex_Main "HOL-Library.Word" "HOL-Library.AList" "HOL-Library.Log_Nat"
begin

unbundle bit_operations_syntax

section \<open>JavaScript values\<close>

text \<open>
  The values that flow from the field resolver into the form document. A number is
  the rational it denotes, strings are lists of code units, \<open>JObj\<close> is an object
  literal as it is written in the mapping catalogue (an ordered list of properties).
\<close>

datatype jsval =
    JUndefined
  | JNull
  | JBool bool
  | JNum rat
  | JStr string
  | JObj "(string \<times> jsval) list"

text \<open>JavaScript truthiness, as used by \<open>if (v)\<close>, \<open>v ? a : b\<close> and \<open>v || d\<close>.\<close>

fun truthy :: "jsval \<Rightarrow> bool" where
  "truthy JUndefined = False"
| "truthy JNull = False"
| "truthy (JBool b) = b"
| "truthy (JNum n) = (n \<noteq> 0)"
| "truthy (JStr s) = (s \<noteq> [])"
| "truthy (JObj ps) = True"

section \<open>Seed derivation (data-generator.js, hashString)\<close>

text \<open>
  \<open>hash = ((hash << 5) - hash) + char; hash = hash & hash\<close>: the shift and the
  final \<open>&\<close> convert to a signed 32-bit integer, so after every iteration the hash is
  the 32-bit word computed with wrap-around; \<open>Math.abs\<close> is taken of its signed
  reading. \<open>charCodeAt\<close> is the code unit of the character.
\<close>

fun hashLoop :: "string \<Rightarrow> 32 word \<Rightarrow> 32 word" where
  "hashLoop [] hash = hash"
| "hashLoop (c # cs) hash = hashLoop cs ((push_bit 5 hash - hash) + of_char c)"

definition hashString :: "string \<Rightarrow> int" where
  "hashString str = \<bar>sint (hashLoop str 0)\<bar>"

section \<open>Dates\<close>

text \<open>
  A \<open>Date\<close> is its time value: milliseconds since the epoch. The calendar functions
  are those of the language standard (Day, DayFromYear, YearFromTime, MonthFromTime,
  DateFromTime, MakeDay, MakeDate, LocalTime, UTC). The methods \<open>getDate\<close>,
  \<open>setDate\<close>, \<open>getMonth\<close>, \<open>setMonth\<close>, \<open>getFullYear\<close>, \<open>setFullYear\<close> and
  \<open>toLocaleDateString\<close> work in the local time of the host, whose time zone is a
  parameter of the model. A string produced by \<open>toISOString\<close> is represented by the
  instant it denotes. Time values stay far inside the range of \<open>TimeClip\<close>.
\<close>

type_synonym instant = int

definition msPerDay :: int where
  "msPerDay = 86400000"

definition Day :: "instant \<Rightarrow> int" where
  "Day t = t div msPerDay"

definition TimeWithinDay :: "instant \<Rightarrow> int" where
  "TimeWithinDay t = t mod msPerDay"

definition DaysInYear :: "int \<Rightarrow> int" where
  "DaysInYear y =
     (if y mod 4 \<noteq> 0 then 365 else if y mod 100 \<noteq> 0 then 366
      else if y mod 400 \<noteq> 0 then 365 else 366)"

definition DayFromYear :: "int \<Rightarrow> int" where
  "DayFromYear y =
     365 * (y - 1970) + (y - 1969) div 4 - (y - 1901) div 100 + (y - 1601) div 400"

lemma div_step:
  fixes x c :: int
  assumes c: "0 < c"
  shows "(x + 1) div c = x div c + (if (x + 1) mod c = 0 then 1 else 0)"
proof -
  have x: "c * (x div c) + x mod c = x" by (rule mult_div_mod_eq)
  have r: "0 \<le> x mod c" "x mod c < c" using c by simp_all
  show ?thesis
  proof (cases "x mod c + 1 = c")
    case True
    have d: "c * (x div c + 1) = c * (x div c) + c" by (simp add: algebra_simps)
    have e: "x + 1 = c * (x div c + 1) + 0"
      using x True d by linarith
    have "(x + 1) div c = x div c + 1"
      using e by (rule int_div_pos_eq) (use c in simp_all)
    moreover have "(x + 1) mod c = 0"
      using e by (rule int_mod_pos_eq) (use c in simp_all)
    ultimately show ?thesis by simp
  next
    case False
    then have lt: "x mod c + 1 < c" using r by linarith
    have e: "x + 1 = c * (x div c) + (x mod c + 1)" using x by linarith
    have p: "0 \<le> x mod c + 1" using r by linarith
    have "(x + 1) div c = x div c"
      using e p lt by (rule int_div_pos_eq)
    moreover have "(x + 1) mod c = x mod c + 1"
      using e p lt by (rule int_mod_pos_eq)
    ultimately show ?thesis using r by simp
  qed
qed

lemma mod_shift:
  fixes y c k :: int
  shows "(y - c * k) mod c = 0 \<longleftrightarrow> y mod c = 0"
proof -
  have "y - c * k = y + c * (- k)" by simp
  then have "(y - c * k) mod c = y mod c" by (metis mod_mult_self2)
  then show ?thesis by simp
qed

lemma mod100_4: "y mod 100 = 0 \<Longrightarrow> y mod 4 = 0" for y :: int
proof -
  assume "y mod 100 = 0"
  then have "100 dvd y" by (simp add: mod_eq_0_iff_dvd)
  moreover have "(4::int) dvd 100" by simp
  ultimately have "4 dvd y" by (rule dvd_trans [rotated])
  then show ?thesis by (simp add: mod_eq_0_iff_dvd)
qed

lemma mod400_100: "y mod 400 = 0 \<Longrightarrow> y mod 100 = 0" for y :: int
proof -
  assume "y mod 400 = 0"
  then have "400 dvd y" by (simp add: mod_eq_0_iff_dvd)
  moreover have "(100::int) dvd 400" by simp
  ultimately have "100 dvd y" by (rule dvd_trans [rotated])
  then show ?thesis by (simp add: mod_eq_0_iff_dvd)
qed

lemma DayFromYear_Suc: "DayFromYear (y + 1) = DayFromYear y + DaysInYear y"
proof -
  have a: "(y + 1 - 1969) div 4 = (y - 1969) div 4 + (if y mod 4 = 0 then 1 else 0)"
    using div_step [of 4 "y - 1969"] mod_shift [of y 4 492] by (simp add: algebra_simps)
  have b: "(y + 1 - 1901) div 100 = (y - 1901) div 100 + (if y mod 100 = 0 then 1 else 0)"
    using div_step [of 100 "y - 1901"] mod_shift [of y 100 19] by (simp add: algebra_simps)
  have c: "(y + 1 - 1601) div 400 = (y - 1601) div 400 + (if y mod 400 = 0 then 1 else 0)"
    using div_step [of 400 "y - 1601"] mod_shift [of y 400 4] by (simp add: algebra_simps)
  have "DayFromYear (y + 1) = 365 * (y + 1 - 1970) + (y + 1 - 1969) div 4
          - (y + 1 - 1901) div 100 + (y + 1 - 1601) div 400"
    by (simp add: DayFromYear_def)
  also have "\<dots> = DayFromYear y + DaysInYear y"
    unfolding a b c DayFromYear_def DaysInYear_def
    using mod100_4 [of y] mod400_100 [of y] by (simp split: if_splits)
  finally show ?thesis .
qed

lemma DayFromYear_mono_step: "DayFromYear y < DayFromYear (y + 1)"
  by (simp add: DayFromYear_Suc DaysInYear_def)

text \<open>\<open>YearFromTime\<close> is the largest year that starts on or before the day: the search
  runs upwards from a year that starts no later.\<close>

function yearSearch :: "int \<Rightarrow> int \<Rightarrow> int" where
  "yearSearch d y = (if DayFromYear (y + 1) \<le> d then yearSearch d (y + 1) else y)"
  by pat_completeness auto
termination
proof (relation "measure (\<lambda>(d, y). nat (d + 1 - DayFromYear (y + 1)))")
  show "wf (measure (\<lambda>(d, y). nat (d + 1 - DayFromYear (y + 1))))" by simp
next
  fix d y :: int
  assume "DayFromYear (y + 1) \<le> d"
  moreover have "DayFromYear (y + 1) < DayFromYear (y + 1 + 1)" by (rule DayFromYear_mono_step)
  ultimately show "((d, y + 1), (d, y)) \<in> measure (\<lambda>(d, y). nat (d + 1 - DayFromYear (y + 1)))"
    by simp
qed

declare yearSearch.simps [simp del]

definition YearFromTime :: "instant \<Rightarrow> int" where
  "YearFromTime t =
     (let d = Day t in
      yearSearch d (if 0 \<le> d then 1970 + d div 366 else 1970 + d div 365 - 1))"

definition InLeapYear :: "instant \<Rightarrow> bool" where
  "InLeapYear t = (DaysInYear (YearFromTime t) = 366)"

definition DayWithinYear :: "instant \<Rightarrow> int" where
  "DayWithinYear t = Day t - DayFromYear (YearFromTime t)"

text \<open>The number of days of the year before month \<open>m\<close> (0 is January).\<close>

definition monthStart :: "int \<Rightarrow> bool \<Rightarrow> int" where
  "monthStart m leap =
     [0, 31, 59, 90, 120, 151, 181, 212, 243, 273, 304, 334] ! nat m
       + (if leap \<and> 2 \<le> m then 1 else 0)"

definition MonthFromTime :: "instant \<Rightarrow> int" where
  "MonthFromTime t =
     (let d = DayWithinYear t; l = (if InLeapYear t then 1 else 0) in
      if d < 31 then 0
      else if d < 59 + l then 1
      else if d < 90 + l then 2
      else if d < 120 + l then 3
      else if d < 151 + l then 4
      else if d < 181 + l then 5
      else if d < 212 + l then 6
      else if d < 243 + l then 7
      else if d < 273 + l then 8
      else if d < 304 + l then 9
      else if d < 334 + l then 10
      else 11)"

definition DateFromTime :: "instant \<Rightarrow> int" where
  "DateFromTime t = DayWithinYear t - monthStart (MonthFromTime t) (InLeapYear t) + 1"

definition MakeDay :: "int \<Rightarrow> int \<Rightarrow> int \<Rightarrow> int" where
  "MakeDay year month date =
     (let ym = year + month div 12; mn = month mod 12 in
      DayFromYear ym + monthStart mn (DaysInYear ym = 366) + date - 1)"

definition MakeDate :: "int \<Rightarrow> int \<Rightarrow> instant" where
  "MakeDate day time = day * msPerDay + time"

text \<open>
  The time zone of the host, as \<open>LocalTime\<close> and \<open>UTC\<close> of the standard use it:
  \<open>tzUTCOffset t\<close> is the offset of local time from UTC in force at the instant
  \<open>t\<close>, in milliseconds; \<open>tzLocalOffset t\<close> is the offset with which the local time
  value \<open>t\<close> is read back as an instant (for a local time that occurs twice or not
  at all, the offset in force before the transition).
\<close>

record timezone =
  tzUTCOffset :: "instant \<Rightarrow> int"
  tzLocalOffset :: "int \<Rightarrow> int"

definition LocalTime :: "timezone \<Rightarrow> instant \<Rightarrow> int" where
  "LocalTime tz t = t + tzUTCOffset tz t"

definition UTC :: "timezone \<Rightarrow> int \<Rightarrow> instant" where
  "UTC tz t = t - tzLocalOffset tz t"

text \<open>\<open>d.getDate()\<close>, \<open>d.getMonth()\<close> and \<open>d.getFullYear()\<close>: the fields of the
  local time.\<close>

definition getDate :: "timezone \<Rightarrow> instant \<Rightarrow> int" where
  "getDate tz t = DateFromTime (LocalTime tz t)"

definition getMonth :: "timezone \<Rightarrow> instant \<Rightarrow> int" where
  "getMonth tz t = MonthFromTime (LocalTime tz t)"

definition getFullYear :: "timezone \<Rightarrow> instant \<Rightarrow> int" where
  "getFullYear tz t = YearFromTime (LocalTime tz t)"

text \<open>\<open>d.setDate(n)\<close>, \<open>d.setMonth(n)\<close> and \<open>d.setFullYear(n)\<close>, returning the new
  time value: the field is replaced in the local time, which is then read back as an
  instant.\<close>

definition setDate :: "timezone \<Rightarrow> instant \<Rightarrow> int \<Rightarrow> instant" where
  "setDate tz t dt =
     (let lt = LocalTime tz t in
      UTC tz (MakeDate (MakeDay (YearFromTime lt) (MonthFromTime lt) dt) (TimeWithinDay lt)))"

definition setMonth :: "timezone \<Rightarrow> instant \<Rightarrow> int \<Rightarrow> instant" where
  "setMonth tz t m =
     (let lt = LocalTime tz t in
      UTC tz (MakeDate (MakeDay (YearFromTime lt) m (DateFromTime lt)) (TimeWithinDay lt)))"

definition setFullYear :: "timezone \<Rightarrow> instant \<Rightarrow> int \<Rightarrow> instant" where
  "setFullYear tz t y =
     (let lt = LocalTime tz t in
      UTC tz (MakeDate (MakeDay y (MonthFromTime lt) (DateFromTime lt)) (TimeWithinDay lt)))"

text \<open>\<open>d.setUTCFullYear(n)\<close>, which the random-data library uses for birthdates: the
  year is replaced in UTC.\<close>

definition setUTCFullYear :: "instant \<Rightarrow> int \<Rightarrow> instant" where
  "setUTCFullYear t y = MakeDate (MakeDay y (MonthFromTime t) (DateFromTime t)) (TimeWithinDay t)"


subsection \<open>Numbers and dates as text\<close>

definition digitChar :: "nat \<Rightarrow> char" where
  "digitChar n = ''0123456789'' ! n"

fun showNat :: "nat \<Rightarrow> string" where
  "showNat n = (if n < 10 then [digitChar n] else showNat (n div 10) @ [digitChar (n mod 10)])"

declare showNat.simps [simp del]

definition showInt :: "int \<Rightarrow> string" where
  "showInt i = (if i < 0 then ''-'' @ showNat (nat (- i)) else showNat (nat i))"

text \<open>\<open>toLocaleDateString('en-US')\<close> for a date of the common era: month, day and
  year of the local time, without padding.\<close>

definition toLocaleDateString :: "timezone \<Rightarrow> instant \<Rightarrow> string" where
  "toLocaleDateString tz t =
     showInt (getMonth tz t + 1) @ ''/'' @ showInt (getDate tz t) @ ''/''
       @ showInt (getFullYear tz t)"

definition toUpperCase :: "string \<Rightarrow> string" where
  "toUpperCase s =
     map (\<lambda>c. if (97::nat) \<le> of_char c \<and> of_char c \<le> (122::nat)
                then char_of (of_char c - (32::nat)) else c) s"

section \<open>Double-precision arithmetic\<close>

text \<open>
  A JavaScript number is a double. A finite double is kept as the rational it denotes,
  and each arithmetic operation rounds its exact result to the nearest double, ties
  to the even significand (\<open>fl\<close>): the result is a multiple of \<open>2 ^ e\<close>, where
  \<open>e\<close> is the binary exponent of the argument minus 52, and not less than -1074
  (the subnormal numbers). Overflow to infinity is not modelled: it is out of reach of
  the amounts of money computed here.
\<close>

definition pow2 :: "int \<Rightarrow> rat" where
  "pow2 e = (if 0 \<le> e then 2 ^ nat e else 1 / 2 ^ nat (- e))"

definition roundTiesToEven :: "rat \<Rightarrow> int" where
  "roundTiesToEven q =
     (let f = \<lfloor>q\<rfloor>; r = q - of_int f in
      if r < 1 / 2 then f
      else if 1 / 2 < r then f + 1
      else if even f then f else f + 1)"

text \<open>The binary exponent of a number other than zero: the largest \<open>k\<close> with
  \<open>2 ^ k \<le> \<bar>x\<bar>\<close>, found from the bit lengths of numerator and denominator.\<close>

definition floorLog2 :: "rat \<Rightarrow> int" where
  "floorLog2 x =
     (let (p, q) = quotient_of \<bar>x\<bar>; k = bitlen p - bitlen q in
      if pow2 k \<le> \<bar>x\<bar> then k else k - 1)"

definition fl :: "rat \<Rightarrow> rat" where
  "fl x =
     (if x = 0 then 0
      else (let e = max (floorLog2 x - 52) (- 1074) in
            of_int (roundTiesToEven (x / pow2 e)) * pow2 e))"

text \<open>\<open>a + b\<close>, \<open>a * b\<close> and \<open>a / b\<close> (with a divisor other than zero) on doubles.\<close>

definition fadd :: "rat \<Rightarrow> rat \<Rightarrow> rat" where
  "fadd a b = fl (a + b)"

definition fmul :: "rat \<Rightarrow> rat \<Rightarrow> rat" where
  "fmul a b = fl (a * b)"

definition fdiv :: "rat \<Rightarrow> rat \<Rightarrow> rat" where
  "fdiv a b = fl (a / b)"

section \<open>The random-data library\<close>

text \<open>
  The faker library is not part of the repository; the model takes it as a parameter.
  \<open>'r\<close> is the state of its generator. Every draw takes the state and returns the
  value drawn and the next state. \<open>fk_seed\<close> is \<open>faker.seed(n)\<close>. The date draws read
  the clock for their reference date, which the model passes in. \<open>fk_text\<close> stands for
  the string-valued draws, named by their dotted path (\<open>person.firstName\<close>,
  \<open>company.name\<close>, \<open>string.numeric\<close>, ...) with their arguments.
\<close>

text \<open>A member of the library object, as \<open>getFakerValue\<close> walks it: a function (which
  may throw: \<open>None\<close>), a module with named members, or a plain value. A function
  member is taken to depend on its arguments and on the state of the generator only, as
  the methods named in the mapping catalogue do (names, addresses, numeric strings,
  \<open>number.int\<close>); the clock-reading date methods are not among them.\<close>

datatype 'r member =
    Callable "jsval list \<Rightarrow> 'r \<Rightarrow> jsval option \<times> 'r"
  | Module "(string \<times> 'r member) list"
  | Plain jsval

record 'r faker =
  fk_seed :: "int \<Rightarrow> 'r \<Rightarrow> 'r"
  fk_int :: "int \<Rightarrow> int \<Rightarrow> 'r \<Rightarrow> int \<times> 'r"
  fk_float :: "rat \<Rightarrow> rat \<Rightarrow> nat \<Rightarrow> 'r \<Rightarrow> rat \<times> 'r"
  fk_boolean :: "rat option \<Rightarrow> 'r \<Rightarrow> bool \<times> 'r"
  fk_birthdate :: "int \<Rightarrow> int \<Rightarrow> instant \<Rightarrow> 'r \<Rightarrow> instant \<times> 'r"
  fk_recent :: "int \<Rightarrow> instant \<Rightarrow> 'r \<Rightarrow> instant \<times> 'r"
  fk_arrayElement :: "string list \<Rightarrow> 'r \<Rightarrow> string \<times> 'r"
  fk_text :: "string \<Rightarrow> jsval list \<Rightarrow> 'r \<Rightarrow> string \<times> 'r"
  fk_root :: "'r member"

text \<open>What the model asks of the library: seeding resets the generator to a state that
  depends on the seed only; an integer draw lies between its bounds; a birthdate drawn
  in age mode lies between the reference date moved back by \<open>max + 1\<close> and by \<open>min\<close>
  calendar years of UTC; \<open>arrayElement\<close> returns an element of a non-empty array; a company
  name is not empty.\<close>

definition seed_resets :: "'r faker \<Rightarrow> bool" where
  "seed_resets fk = (\<forall>n r r'. fk_seed fk n r = fk_seed fk n r')"

definition int_in_range :: "'r faker \<Rightarrow> bool" where
  "int_in_range fk =
     (\<forall>lo hi r. lo \<le> hi \<longrightarrow> lo \<le> fst (fk_int fk lo hi r) \<and> fst (fk_int fk lo hi r) \<le> hi)"


definition arrayElement_member :: "'r faker \<Rightarrow> bool" where
  "arrayElement_member fk =
     (\<forall>xs r. xs \<noteq> [] \<longrightarrow> fst (fk_arrayElement fk xs r) \<in> set xs)"

definition company_name_nonempty :: "'r faker \<Rightarrow> bool" where
  "company_name_nonempty fk = (\<forall>r. fst (fk_text fk ''company.name'' [] r) \<noteq> [])"

section \<open>The dataset (data-generator.js)\<close>

record ssn_rec =
  part1 :: string
  part2 :: string
  part3 :: string
  full :: string

record claimant_rec =
  firstName :: string
  lastName :: string
  middleInitial :: string
  fullName :: string
  c_address :: string
  c_city :: string
  c_state :: string
  c_zip :: string
  c_phone :: string
  c_email :: string
  ssn :: ssn_rec
  dateOfBirth :: instant
  occupation :: string

record dates_rec =
  disabilityStart :: instant
  lastDayWorked :: instant
  employmentStart :: instant
  signatureDate :: instant

record fein_rec =
  fein_part1 :: string
  fein_part2 :: string

record employer_rec =
  e_name :: string
  e_address :: string
  e_city :: string
  e_state :: string
  e_zip :: string
  e_phone :: string
  fein :: fein_rec
  contactName :: string
  contactTitle :: string
  contactEmail :: string
  contactPhone :: string
  policyNumber :: string

record week_rec =
  weekNumber :: int
  weekEndDate :: instant
  daysWorked :: int
  grossAmount :: rat

record wages_rec =
  weeklyWages :: "week_rec list"
  averageWeeklyWage :: rat
  baseWeeklyWage :: rat

record union_rec =
  u_name :: string

record disability_rec =
  description1 :: string
  description2 :: string

record priorBenefits_rec =
  claimedFrom :: string
  claimedPeriodStart :: "instant option"
  claimedPeriodEnd :: "instant option"
  priorDisabilityPaidBy :: string
  priorDisabilityStart :: "instant option"
  priorDisabilityEnd :: "instant option"
  priorPFLPaidBy :: string
  priorPFLStart :: "instant option"
  priorPFLEnd :: "instant option"

record conditionalData_rec =
  returnToWorkDate :: "instant option"
  workedForWagesDates :: string
  unemploymentExplanation :: string
  unemploymentPeriods :: string
  wagesContinuedType :: string
  priorDisabilityDates :: string
  priorPFLDates :: string

record checkboxStates =
  gender :: bool
  didWorkOnDisabilityDay :: bool
  hasRecovered :: bool
  workedForWages :: bool
  unionMember :: bool
  receivingWages :: bool
  unemploymentBenefits :: bool
  paidFamilyLeave :: bool
  workersComp :: bool
  noFaultAccident :: bool
  thirdPartyInjury :: bool
  longTermDisability :: bool
  priorDisability :: bool
  priorPFL :: bool
  employerProvidedRights :: bool
  wagesContinued :: bool
  reimbursementRequested :: bool
  stillEmployed :: bool
  priorLeave :: bool
  directDeposit :: bool
  employeeContributes :: bool
  checkingAccount :: bool
  noEOBs :: bool

text \<open>\<open>aiContent\<close> is absent (\<open>None\<close>) until \<open>getAIValue\<close> creates it; its properties
  are kept in insertion order.\<close>

record dataset =
  runId :: string
  generatedAt :: instant
  seed :: int
  claimant :: claimant_rec
  dates :: dates_rec
  employer :: employer_rec
  wages :: wages_rec
  unionInfo :: "union_rec option"
  disability :: disability_rec
  priorBenefits :: priorBenefits_rec
  conditionalData :: conditionalData_rec
  checkboxes :: checkboxStates
  aiContent :: "(string \<times> string) list option"

text \<open>field-mapping.js: the sample descriptions, as pairs (line1, line2).\<close>

definition SampleDisabilityDescriptions :: "(string \<times> string) list" where
  "SampleDisabilityDescriptions =
     [(''Lower back strain with herniated disc L4-L5. Pain radiates down left leg.'',
       ''Occurred while lifting boxes at home on 12/15/2025. Currently unable to sit or stand for extended periods.''),
      (''Right knee injury - torn meniscus requiring surgical repair.'',
       ''Slipped on ice in parking lot on 01/02/2026. Surgery scheduled, recovery expected 6-8 weeks.''),
      (''Post-surgical recovery following appendectomy due to acute appendicitis.'',
       ''Emergency surgery performed on 12/28/2025. Restricted from lifting over 10 lbs during recovery.''),
      (''Severe migraine disorder with visual aura and photophobia.'',
       ''Condition worsened significantly in early January 2026. Unable to work due to frequency and severity of episodes.''),
      (''Fractured right wrist (distal radius) from fall.'',
       ''Fell on stairs at home on 01/05/2026. Cast applied, unable to perform job duties requiring manual dexterity.'')]"

text \<open>\<open>Math.round(x * 100) / 100\<close>: the product and the quotient are operations on
  doubles; \<open>Math.round\<close> gives the nearest integer, halves upwards.\<close>

definition round2 :: "rat \<Rightarrow> rat" where
  "round2 x = fdiv (of_int (round (fmul x 100))) 100"

section \<open>The base dataset builder (data-generator.js, generateBaseData)\<close>

text \<open>The loop \<open>for (let i = 1; i <= 8; i++)\<close> that fills \<open>weeklyWages\<close>.\<close>

function weeklyWagesLoop ::
  "'r faker \<Rightarrow> timezone \<Rightarrow> instant \<Rightarrow> rat \<Rightarrow> int \<Rightarrow> week_rec list \<Rightarrow> 'r
     \<Rightarrow> week_rec list \<times> 'r" where
  "weeklyWagesLoop fk tz v_lastDayWorked v_base i acc r =
     (if i \<le> 8 then
        (let v_weekEndDate =
               setDate tz v_lastDayWorked (getDate tz v_lastDayWorked - 7 * (i - 1));
             (v_daysWorked, r1) = fk_int fk 4 5 r;
             (v_delta, r2) = fk_float fk (- 100) 100 2 r1;
             v_wage = fadd v_base v_delta
         in weeklyWagesLoop fk tz v_lastDayWorked v_base (i + 1)
              (acc @ [\<lparr>weekNumber = i, weekEndDate = v_weekEndDate,
                        daysWorked = v_daysWorked, grossAmount = round2 v_wage\<rparr>]) r2)
      else (acc, r))"
  by pat_completeness auto
termination
  by (relation "measure (\<lambda>(fk, tz, l, b, i, acc, r). nat (9 - i))") auto

declare weeklyWagesLoop.simps [simp del]

text \<open>The object literal \<open>checkboxStates\<close>: 23 booleans drawn in the order written.\<close>

definition drawCheckboxStates :: "'r faker \<Rightarrow> 'r \<Rightarrow> checkboxStates \<times> 'r" where
  "drawCheckboxStates fk r0 =
     (let (b1, r1) = fk_boolean fk None r0;
          (b2, r2) = fk_boolean fk (Some (3 / 10)) r1;
          (b3, r3) = fk_boolean fk (Some (2 / 10)) r2;
          (b4, r4) = fk_boolean fk (Some (1 / 10)) r3;
          (b5, r5) = fk_boolean fk (Some (15 / 100)) r4;
          (b6, r6) = fk_boolean fk (Some (3 / 10)) r5;
          (b7, r7) = fk_boolean fk (Some (1 / 10)) r6;
          (b8, r8) = fk_boolean fk (Some (1 / 10)) r7;
          (b9, r9) = fk_boolean fk (Some (5 / 100)) r8;
          (b10, r10) = fk_boolean fk (Some (8 / 100)) r9;
          (b11, r11) = fk_boolean fk (Some (5 / 100)) r10;
          (b12, r12) = fk_boolean fk (Some (5 / 100)) r11;
          (b13, r13) = fk_boolean fk (Some (15 / 100)) r12;
          (b14, r14) = fk_boolean fk (Some (1 / 10)) r13;
          (b15, r15) = fk_boolean fk (Some (9 / 10)) r14;
          (b16, r16) = fk_boolean fk (Some (3 / 10)) r15;
          (b17, r17) = fk_boolean fk (Some (2 / 10)) r16;
          (b18, r18) = fk_boolean fk (Some (85 / 100)) r17;
          (b19, r19) = fk_boolean fk (Some (1 / 10)) r18;
          (b20, r20) = fk_boolean fk (Some (7 / 10)) r19;
          (b21, r21) = fk_boolean fk (Some (6 / 10)) r20;
          (b22, r22) = fk_boolean fk (Some (8 / 10)) r21;
          (b23, r23) = fk_boolean fk (Some (3 / 10)) r22
      in (\<lparr>gender = b1, didWorkOnDisabilityDay = b2, hasRecovered = b3, workedForWages = b4,
           unionMember = b5, receivingWages = b6, unemploymentBenefits = b7,
           paidFamilyLeave = b8, workersComp = b9, noFaultAccident = b10,
           thirdPartyInjury = b11, longTermDisability = b12, priorDisability = b13,
           priorPFL = b14, employerProvidedRights = b15, wagesContinued = b16,
           reimbursementRequested = b17, stillEmployed = b18, priorLeave = b19,
           directDeposit = b20, employeeContributes = b21, checkingAccount = b22,
           noEOBs = b23\<rparr>, r23))"

text \<open>
  The body of \<open>generateBaseData\<close> is modelled in three parts: the local constants
  computed before the \<open>return\<close> (lines 53 to 146), the draws made while the returned
  object literal is evaluated, and the literal itself. \<open>now\<close> is the clock, read by
  \<open>new Date()\<close> and by the library's date draws: the build is taken to happen at one
  instant. \<open>tz\<close> is the time zone of the host. The draws are threaded in evaluation
  order.
\<close>

record locals =
  l_disabilityStartDate :: instant
  l_lastDayWorked :: instant
  l_employmentStartDate :: instant
  l_dateOfBirth :: instant
  l_baseWeeklyWage :: rat
  l_weeklyWages :: "week_rec list"
  l_averageWeeklyWage :: rat
  l_disabilityIndex :: int
  l_firstName :: string
  l_lastName :: string
  l_middleInitial :: string
  l_employerName :: string
  l_employerContactName :: string
  l_employerContactTitle :: string
  l_employerPhone :: string
  l_employerEmail :: string
  l_ssn1 :: string
  l_ssn2 :: string
  l_ssn3 :: string
  l_checkboxStates :: checkboxStates
  l_priorBenefitStart :: instant
  l_priorBenefitEnd :: instant

definition baseLocals :: "'r faker \<Rightarrow> timezone \<Rightarrow> instant \<Rightarrow> 'r \<Rightarrow> locals \<times> 'r" where
  "baseLocals fk tz now r0 =
     (let (n1, r1) = fk_int fk 7 21 r0;
          v_disabilityStartDate = setDate tz now (getDate tz now - n1);
          v_lastDayWorked =
            setDate tz v_disabilityStartDate (getDate tz v_disabilityStartDate - 1);
          (n2, r2) = fk_int fk 1 10 r1;
          v_employmentStartDate =
            setFullYear tz v_lastDayWorked (getFullYear tz v_lastDayWorked - n2);
          (v_dateOfBirth, r3) = fk_birthdate fk 25 60 now r2;
          (v_baseWeeklyWage, r4) = fk_float fk 800 2500 2 r3;
          (v_weeklyWages, r5) = weeklyWagesLoop fk tz v_lastDayWorked v_baseWeeklyWage 1 [] r4;
          v_averageWeeklyWage =
            fdiv (foldl (\<lambda>sum w. fadd sum (grossAmount w)) 0 v_weeklyWages) 8;
          (v_disabilityIndex, r6) =
            fk_int fk 0 (int (length SampleDisabilityDescriptions) - 1) r5;
          (v_firstName, r7) = fk_text fk ''person.firstName'' [] r6;
          (v_lastName, r8) = fk_text fk ''person.lastName'' [] r7;
          (v_middleInitial, r9) =
            fk_text fk ''string.alpha'' [JObj [(''length'', JNum 1), (''casing'', JStr ''upper'')]] r8;
          (v_employerName, r10) = fk_text fk ''company.name'' [] r9;
          (v_employerContactName, r11) = fk_text fk ''person.fullName'' [] r10;
          (v_employerContactTitle, r12) = fk_text fk ''person.jobTitle'' [] r11;
          (v_employerPhone, r13) = fk_text fk ''phone.number'' [JStr ''(###) ###-####''] r12;
          (v_employerEmail, r14) = fk_text fk ''internet.email'' [] r13;
          (v_ssn1, r15) = fk_text fk ''string.numeric'' [JNum 3] r14;
          (v_ssn2, r16) = fk_text fk ''string.numeric'' [JNum 2] r15;
          (v_ssn3, r17) = fk_text fk ''string.numeric'' [JNum 4] r16;
          (v_checkboxStates, r18) = drawCheckboxStates fk r17;
          (n3, r19) = fk_int fk 6 10 r18;
          v_priorBenefitStart =
            setMonth tz v_disabilityStartDate (getMonth tz v_disabilityStartDate - n3);
          (n4, r20) = fk_int fk 14 60 r19;
          v_priorBenefitEnd =
            setDate tz v_priorBenefitStart (getDate tz v_priorBenefitStart + n4)
      in (\<lparr>l_disabilityStartDate = v_disabilityStartDate,
           l_lastDayWorked = v_lastDayWorked,
           l_employmentStartDate = v_employmentStartDate,
           l_dateOfBirth = v_dateOfBirth,
           l_baseWeeklyWage = v_baseWeeklyWage,
           l_weeklyWages = v_weeklyWages,
           l_averageWeeklyWage = v_averageWeeklyWage,
           l_disabilityIndex = v_disabilityIndex,
           l_firstName = v_firstName,
           l_lastName = v_lastName,
           l_middleInitial = v_middleInitial,
           l_employerName = v_employerName,
           l_employerContactName = v_employerContactName,
           l_employerContactTitle = v_employerContactTitle,
           l_employerPhone = v_employerPhone,
           l_employerEmail = v_employerEmail,
           l_ssn1 = v_ssn1,
           l_ssn2 = v_ssn2,
           l_ssn3 = v_ssn3,
           l_checkboxStates = v_checkboxStates,
           l_priorBenefitStart = v_priorBenefitStart,
           l_priorBenefitEnd = v_priorBenefitEnd\<rparr>, r20))"

text \<open>The values drawn inside the returned literal, in the order of its properties.\<close>

record literalDraws =
  d_address :: string
  d_city :: string
  d_zip :: string
  d_phone :: string
  d_email :: string
  d_occupation :: string
  d_employerAddress :: string
  d_employerCity :: string
  d_employerZip :: string
  d_fein1 :: string
  d_fein2 :: string
  d_policyNumber :: string
  d_union :: "union_rec option"
  d_workedForWagesDates :: string
  d_wagesContinuedType :: string

definition baseLiteralDraws ::
  "'r faker \<Rightarrow> timezone \<Rightarrow> instant \<Rightarrow> locals \<Rightarrow> 'r \<Rightarrow> literalDraws \<times> 'r" where
  "baseLiteralDraws fk tz now loc r20 =
     (let (v_address, r21) = fk_text fk ''location.streetAddress'' [] r20;
          (v_city, r22) = fk_text fk ''location.city'' [] r21;
          (v_zip, r23) = fk_text fk ''location.zipCode'' [JStr ''#####''] r22;
          (v_phone, r24) = fk_text fk ''phone.number'' [JStr ''###-###-####''] r23;
          (v_email, r25) =
            fk_text fk ''internet.email''
              [JObj [(''firstName'', JStr (l_firstName loc)),
                     (''lastName'', JStr (l_lastName loc))]] r24;
          (v_occupation, r26) = fk_text fk ''person.jobTitle'' [] r25;
          (v_eaddress, r27) = fk_text fk ''location.streetAddress'' [JBool True] r26;
          (v_ecity, r28) = fk_text fk ''location.city'' [] r27;
          (v_ezip, r29) = fk_text fk ''location.zipCode'' [JStr ''#####''] r28;
          (v_fein1, r30) = fk_text fk ''string.numeric'' [JNum 2] r29;
          (v_fein2, r31) = fk_text fk ''string.numeric'' [JNum 7] r30;
          (v_policy, r32) = fk_text fk ''string.alphanumeric'' [JNum 8] r31;
          (v_union, r33) =
            (if unionMember (l_checkboxStates loc) then
               (let (n5, ra) = fk_int fk 1 999 r32;
                    (v_buzz, rb) = fk_text fk ''company.buzzNoun'' [] ra
                in (Some \<lparr>u_name = ''Local '' @ showInt n5 @ '' - '' @ v_buzz @ '' Workers Union''\<rparr>,
                    rb))
             else (None, r32));
          (v_workedDates, r34) =
            (if workedForWages (l_checkboxStates loc) then
               (let (v_recent, ra) = fk_recent fk 7 now r33 in (toLocaleDateString tz v_recent, ra))
             else ([], r33));
          (v_continuedType, r35) =
            (if wagesContinued (l_checkboxStates loc) then
               fk_arrayElement fk [''PTO'', ''Sick time'', ''Salary continuation''] r34
             else ([], r34))
      in (\<lparr>d_address = v_address, d_city = v_city, d_zip = v_zip, d_phone = v_phone,
           d_email = v_email, d_occupation = v_occupation,
           d_employerAddress = v_eaddress, d_employerCity = v_ecity, d_employerZip = v_ezip,
           d_fein1 = v_fein1, d_fein2 = v_fein2, d_policyNumber = toUpperCase v_policy,
           d_union = v_union, d_workedForWagesDates = v_workedDates,
           d_wagesContinuedType = v_continuedType\<rparr>, r35))"

text \<open>The returned literal. \<open>v_description\<close> is the selected entry of the sample array;
  \<open>v_period\<close> is the text \<open>start - end\<close> of the prior benefit period.\<close>

definition baseLiteral ::
  "timezone \<Rightarrow> string \<Rightarrow> int \<Rightarrow> instant \<Rightarrow> locals \<Rightarrow> literalDraws \<Rightarrow> string \<times> string
     \<Rightarrow> dataset" where
  "baseLiteral tz v_runId v_seed now loc drw v_description =
     (let v_checkboxStates = l_checkboxStates loc;
          v_period = toLocaleDateString tz (l_priorBenefitStart loc) @ '' - ''
                       @ toLocaleDateString tz (l_priorBenefitEnd loc)
      in \<lparr>runId = v_runId,
          generatedAt = now,
          seed = v_seed,
          claimant = \<lparr>firstName = l_firstName loc, lastName = l_lastName loc,
            middleInitial = l_middleInitial loc,
            fullName = l_firstName loc @ '' '' @ l_middleInitial loc @ ''. '' @ l_lastName loc,
            c_address = d_address drw, c_city = d_city drw, c_state = ''NY'',
            c_zip = d_zip drw, c_phone = d_phone drw, c_email = d_email drw,
            ssn = \<lparr>part1 = l_ssn1 loc, part2 = l_ssn2 loc, part3 = l_ssn3 loc,
                    full = l_ssn1 loc @ ''-'' @ l_ssn2 loc @ ''-'' @ l_ssn3 loc\<rparr>,
            dateOfBirth = l_dateOfBirth loc, occupation = d_occupation drw\<rparr>,
          dates = \<lparr>disabilityStart = l_disabilityStartDate loc,
            lastDayWorked = l_lastDayWorked loc,
            employmentStart = l_employmentStartDate loc,
            signatureDate = now\<rparr>,
          employer = \<lparr>e_name = l_employerName loc, e_address = d_employerAddress drw,
            e_city = d_employerCity drw, e_state = ''NY'', e_zip = d_employerZip drw,
            e_phone = l_employerPhone loc,
            fein = \<lparr>fein_part1 = d_fein1 drw, fein_part2 = d_fein2 drw\<rparr>,
            contactName = l_employerContactName loc,
            contactTitle = l_employerContactTitle loc,
            contactEmail = l_employerEmail loc,
            contactPhone = l_employerPhone loc,
            policyNumber = d_policyNumber drw\<rparr>,
          wages = \<lparr>weeklyWages = l_weeklyWages loc,
            averageWeeklyWage = round2 (l_averageWeeklyWage loc),
            baseWeeklyWage = l_baseWeeklyWage loc\<rparr>,
          unionInfo = d_union drw,
          disability = \<lparr>description1 = fst v_description,
            description2 = snd v_description\<rparr>,
          priorBenefits = \<lparr>
            claimedFrom = (if receivingWages v_checkboxStates then l_employerName loc else []),
            claimedPeriodStart =
              (if receivingWages v_checkboxStates then Some (l_priorBenefitStart loc) else None),
            claimedPeriodEnd =
              (if receivingWages v_checkboxStates then Some (l_priorBenefitEnd loc) else None),
            priorDisabilityPaidBy =
              (if priorDisability v_checkboxStates then ''ShelterPoint Life'' else []),
            priorDisabilityStart =
              (if priorDisability v_checkboxStates then Some (l_priorBenefitStart loc) else None),
            priorDisabilityEnd =
              (if priorDisability v_checkboxStates then Some (l_priorBenefitEnd loc) else None),
            priorPFLPaidBy = (if priorPFL v_checkboxStates then ''ShelterPoint Life'' else []),
            priorPFLStart =
              (if priorPFL v_checkboxStates then Some (l_priorBenefitStart loc) else None),
            priorPFLEnd =
              (if priorPFL v_checkboxStates then Some (l_priorBenefitEnd loc) else None)\<rparr>,
          conditionalData = \<lparr>
            returnToWorkDate = (if hasRecovered v_checkboxStates then Some now else None),
            workedForWagesDates = d_workedForWagesDates drw,
            unemploymentExplanation =
              (if \<not> unemploymentBenefits v_checkboxStates
               then ''Did not apply for unemployment benefits as disability began while employed.''
               else []),
            unemploymentPeriods =
              (if unemploymentBenefits v_checkboxStates then v_period else []),
            wagesContinuedType = d_wagesContinuedType drw,
            priorDisabilityDates = (if priorLeave v_checkboxStates then v_period else []),
            priorPFLDates = (if priorPFL v_checkboxStates then v_period else [])\<rparr>,
          checkboxes = v_checkboxStates,
          aiContent = None\<rparr>)"

text \<open>\<open>SampleDisabilityDescriptions[disabilityIndex]\<close>: undefined outside the array.\<close>

definition sampleAt :: "int \<Rightarrow> (string \<times> string) option" where
  "sampleAt i =
     (if 0 \<le> i \<and> i < int (length SampleDisabilityDescriptions)
      then Some (SampleDisabilityDescriptions ! nat i) else None)"

text \<open>\<open>generateBaseData\<close>: \<open>v_runId\<close> and \<open>v_seed\<close> are \<open>this.runId\<close> and
  \<open>this.seed\<close>. An index outside the sample array makes \<open>disabilityDescription\<close>
  undefined and the read of \<open>.line1\<close> throw (\<open>Inl\<close>).\<close>

definition generateBaseData ::
  "'r faker \<Rightarrow> timezone \<Rightarrow> string \<Rightarrow> int \<Rightarrow> instant \<Rightarrow> 'r \<Rightarrow> string + (dataset \<times> 'r)" where
  "generateBaseData fk tz v_runId v_seed now r0 =
     (let (loc, r20) = baseLocals fk tz now r0;
          (drw, r35) = baseLiteralDraws fk tz now loc r20
      in case sampleAt (l_disabilityIndex loc) of
           None \<Rightarrow> Inl ''TypeError''
         | Some v_description \<Rightarrow>
             Inr (baseLiteral tz v_runId v_seed now loc drw v_description, r35))"

section \<open>The generator object and the dataset store (data-generator.js)\<close>

text \<open>
  The AI callback \<open>aiCallback(prompt, category, data)\<close> is a capability outside the
  repository; \<open>'b\<close> is the state of its backend, so that two invocations may answer
  differently. The world holds the files of the data directory (the dataset stored
  under each run id), the state of the random generator, the state of the backend and
  the log of the backend invocations (prompt and category).
\<close>

type_synonym 'b aiCallback = "string \<Rightarrow> string \<Rightarrow> dataset \<Rightarrow> 'b \<Rightarrow> string \<times> 'b"

record ('r, 'b) world =
  files :: "(string \<times> dataset) list"
  rng :: 'r
  backend :: 'b
  aiLog :: "(string \<times> string) list"

record 'b options =
  opt_useAI :: "bool option"
  opt_aiCallback :: "'b aiCallback option"

record 'b generator =
  g_runId :: string
  g_seed :: int
  g_useAI :: bool
  g_aiCallback :: "'b aiCallback option"
  g_data :: dataset

text \<open>\<open>saveData\<close>: the dataset is written to the file of the run id.\<close>

definition saveData :: "'b generator \<Rightarrow> ('r, 'b) world \<Rightarrow> ('r, 'b) world" where
  "saveData g w = w\<lparr>files := AList.update (g_runId g) (g_data g) (files w)\<rparr>"

text \<open>The constructor: an existing file is loaded as it is; otherwise the library is
  seeded with the hash of the run id, the dataset is built and saved.\<close>

definition newDataGenerator ::
  "'r faker \<Rightarrow> timezone \<Rightarrow> string \<Rightarrow> 'b options \<Rightarrow> instant \<Rightarrow> ('r, 'b) world
     \<Rightarrow> string + ('b generator \<times> ('r, 'b) world)" where
  "newDataGenerator fk tz v_runId v_options now w =
     (let this = (\<lambda>d. \<lparr>g_runId = v_runId,
               g_seed = hashString v_runId,
               g_useAI = (case opt_useAI v_options of Some b \<Rightarrow> b | None \<Rightarrow> False),
               g_aiCallback = opt_aiCallback v_options,
               g_data = d\<rparr>)
      in case map_of (files w) v_runId of
           Some d \<Rightarrow> Inr (this d, w)
         | None \<Rightarrow>
             (let r1 = fk_seed fk (hashString v_runId) (rng w) in
              case generateBaseData fk tz v_runId (hashString v_runId) now r1 of
                Inl e \<Rightarrow> Inl e
              | Inr (d, r2) \<Rightarrow> Inr (this d, saveData (this d) (w\<lparr>rng := r2\<rparr>))))"

section \<open>Field resolution (data-generator.js)\<close>

subsection \<open>getFakerValue\<close>

text \<open>\<open>method.split('.')\<close>.\<close>

fun splitOn :: "char \<Rightarrow> string \<Rightarrow> string list" where
  "splitOn c [] = [[]]"
| "splitOn c (x # xs) =
     (if x = c then [] # splitOn c xs
      else (case splitOn c xs of p # ps \<Rightarrow> (x # p) # ps | [] \<Rightarrow> [[x]]))"

text \<open>\<open>fn[part]\<close>: a member of a module by name; anything else has no such property in
  the model.\<close>

fun getMember :: "'r member \<Rightarrow> string \<Rightarrow> 'r member option" where
  "getMember (Module ms) part = map_of ms part"
| "getMember (Callable f) part = None"
| "getMember (Plain v) part = None"

fun falsy :: "'r member option \<Rightarrow> bool" where
  "falsy None = True"
| "falsy (Some (Plain v)) = (\<not> truthy v)"
| "falsy (Some (Callable f)) = False"
| "falsy (Some (Module ms)) = False"

text \<open>The loop over the parts: \<open>None\<close> is the early return after the warning.\<close>

fun resolvePath :: "'r member \<Rightarrow> string list \<Rightarrow> 'r member option" where
  "resolvePath fn [] = Some fn"
| "resolvePath fn (part # parts) =
     (let fn' = getMember fn part in
      if falsy fn' then None
      else (case fn' of Some m \<Rightarrow> resolvePath m parts | None \<Rightarrow> None))"

definition getFakerValue ::
  "'r faker \<Rightarrow> 'b generator \<Rightarrow> string \<Rightarrow> jsval list \<Rightarrow> 'r \<Rightarrow> jsval \<times> 'r" where
  "getFakerValue fk g v_method args r =
     (let r1 = fk_seed fk (g_seed g) r in
      case resolvePath (fk_root fk) (splitOn CHR ''.'' v_method) of
        None \<Rightarrow> (JStr [], r1)
      | Some (Callable f) \<Rightarrow>
          (case f args r1 of
             (Some v, r2) \<Rightarrow> (v, r2)
           | (None, r2) \<Rightarrow> (JStr [], r2))
      | Some (Plain v) \<Rightarrow> (v, r1)
      | Some (Module ms) \<Rightarrow> (JObj [], r1))"

subsection \<open>getAIValue\<close>

text \<open>The calls are awaited one after the other, as \<open>fillForm\<close> does. The test
  \<open>if (this.data.aiContent[category])\<close> holds for a stored string that is not
  empty.\<close>

definition cachedContent :: "(string \<times> string) list \<Rightarrow> string \<Rightarrow> string option" where
  "cachedContent content category =
     (case map_of content category of
        Some c \<Rightarrow> if c \<noteq> [] then Some c else None
      | None \<Rightarrow> None)"

definition getAIValue ::
  "'b generator \<Rightarrow> string \<Rightarrow> string \<Rightarrow> string \<Rightarrow> ('r, 'b) world
     \<Rightarrow> string \<times> 'b generator \<times> ('r, 'b) world" where
  "getAIValue g fieldName prompt category w =
     (case (g_useAI g, g_aiCallback g) of
        (True, Some callback) \<Rightarrow>
          (let content0 = (case aiContent (g_data g) of None \<Rightarrow> [] | Some c \<Rightarrow> c);
               g1 = g\<lparr>g_data := (g_data g)\<lparr>aiContent := Some content0\<rparr>\<rparr>
           in case cachedContent content0 category of
                Some cached \<Rightarrow> (cached, g1, w)
              | None \<Rightarrow>
                  (let (content, b') = callback prompt category (g_data g1) (backend w);
                       g2 = g1\<lparr>g_data := (g_data g1)\<lparr>aiContent :=
                               Some (AList.update category content content0)\<rparr>\<rparr>;
                       w' = w\<lparr>backend := b', aiLog := aiLog w @ [(prompt, category)]\<rparr>
                   in (content, g2, saveData g2 w')))
      | _ \<Rightarrow>
          (if category = ''disability_description''
           then (description1 (disability (g_data g)), g, w)
           else if category = ''disability_description_continued''
           then (description2 (disability (g_data g)), g, w)
           else ([], g, w)))"

subsection \<open>getCheckboxValue\<close>

text \<open>An entry of \<open>checkboxMap\<close>: the name of a stored checkbox state (given by its
  selector), a boolean literal, or a function of the dataset.\<close>

datatype checkboxEntry =
    StateKey "checkboxStates \<Rightarrow> bool"
  | Literal bool
  | Computed "dataset \<Rightarrow> bool"

definition checkboxMap :: "(string \<times> checkboxEntry) list" where
  "checkboxMap =
     [(''17 - Gender'', StateKey gender),
      (''25 - Did you work that day?'', StateKey didWorkOnDisabilityDay),
      (''27 - Have you recovered from this disability?'', StateKey hasRecovered),
      (''32 - Have you since worked for wages or profit?'', StateKey workedForWages),
      (''73 - Union Member?'', StateKey unionMember),
      (''76 - Were you claiming or receiving unemployment prior to this disability?'',
         StateKey unemploymentBenefits),
      (''2 - A.'' @ [CHR 0x09] @ ''Are you receiving wages, salary or separation pay?'',
         StateKey receivingWages),
      (''3 - Unemployment Benefits?'', StateKey unemploymentBenefits),
      (''4 - Paid Family Leave?'', StateKey paidFamilyLeave),
      (''5 - Workers Compensation?'', StateKey workersComp),
      (''6 - No fault motor vehicle accident?'', StateKey noFaultAccident),
      (''7 - personal injury involving third party?'', StateKey thirdPartyInjury),
      (''8 - Long-term disability benefits under the Federal Social Security Act for this disability?'',
         StateKey longTermDisability),
      (''17 - have you received disability benefits for other periods of disability?'',
         StateKey priorDisability),
      (''25 -  In the year (52 weeks) before your disability began, have you received Paid Family Leave?'',
         StateKey priorPFL),
      (''11 - Is the employee a member of a union?'', StateKey unionMember),
      (''18 - Were wages continued during disability?'', StateKey wagesContinued),
      (''20 - If yes, is reimbursement requested by employer?'', StateKey reimbursementRequested),
      (''21 - Is the employee'' @ [CHR 0x27] @ ''s disability work-related?'', Literal False),
      (''47 - In the preceding 52 weeks has the employee taken leave for:'', StateKey priorLeave),
      (''50 - Is employee still in your employment?'', StateKey stillEmployed),
      (''10 - Payment'', StateKey directDeposit),
      (''18 - Does employee contribute?'', StateKey employeeContributes),
      (''4 Checking account'', StateKey checkingAccount),
      (''4 Savings account'', Computed (\<lambda>d. \<not> checkingAccount (checkboxes d))),
      (''EOBs'', StateKey noEOBs),
      (''14 - Employees Role'', Literal True)]"

definition getCheckboxValue ::
  "'r faker \<Rightarrow> 'b generator \<Rightarrow> string \<Rightarrow> rat \<Rightarrow> 'r \<Rightarrow> bool \<times> 'r" where
  "getCheckboxValue fk g fieldName probability r =
     (case map_of checkboxMap fieldName of
        None \<Rightarrow>
          fk_boolean fk (Some probability)
            (fk_seed fk (g_seed g + hashString fieldName) r)
      | Some (Literal b) \<Rightarrow> (b, r)
      | Some (Computed f) \<Rightarrow> (f (g_data g), r)
      | Some (StateKey k) \<Rightarrow> (k (checkboxes (g_data g)) \<or> False, r))"

section \<open>Checkbox widgets of the form document (fill-form.js)\<close>

text \<open>
  A checkbox field of the form document has a value entry \<open>/V\<close> and a list of widgets.
  Each widget has an appearance state \<open>/AS\<close> and may have a normal appearance
  dictionary \<open>/AP /N\<close>; \<open>normalKeys\<close> are the keys of that dictionary as
  \<open>toString\<close> prints them (with the leading slash), \<open>None\<close> when \<open>/AP\<close>,
  \<open>/N\<close> or the looked-up dictionary is missing. Names written by \<open>PDFName.of\<close>
  are kept without the slash.
\<close>

record widget =
  normalKeys :: "string list option"
  appearanceState :: string

record checkbox =
  fieldV :: "string option"
  widgets :: "widget list"

text \<open>An entry \<open>{ widget: i, value: s }\<close> of the on-value array.\<close>

type_synonym onvalue = "nat \<times> string"

definition widgetOnValues :: "nat \<Rightarrow> widget \<Rightarrow> onvalue list" where
  "widgetOnValues i w =
     (case normalKeys w of
        None \<Rightarrow> []
      | Some ks \<Rightarrow> map (\<lambda>k. (i, drop 1 k)) (filter (\<lambda>k. k \<noteq> ''/Off'') ks))"

text \<open>\<open>getCheckboxOnValues\<close>: one entry for each non-Off appearance state of each widget,
  in widget order.\<close>

definition getCheckboxOnValues :: "checkbox \<Rightarrow> onvalue list" where
  "getCheckboxOnValues cb =
     concat (map (\<lambda>(i, w). widgetOnValues i w) (enumerate 0 (widgets cb)))"

definition isYesNoCheckbox :: "onvalue list \<Rightarrow> bool" where
  "isYesNoCheckbox onValues =
     (list_ex (\<lambda>v. snd v = ''Yes'') onValues \<and> list_ex (\<lambda>v. snd v = ''No'') onValues)"

definition isMultiWidgetCheckbox :: "onvalue list \<Rightarrow> bool" where
  "isMultiWidgetCheckbox onValues = (length onValues > 1)"

text \<open>The body of the \<open>widgets.forEach\<close> callback of \<open>setMultiWidgetCheckboxValue\<close>:
  \<open>onValues.find(v => v.widget === i)\<close> is the first entry of widget \<open>i\<close>.\<close>

definition setWidgetAS :: "string \<Rightarrow> onvalue list \<Rightarrow> nat \<Rightarrow> widget \<Rightarrow> widget" where
  "setWidgetAS targetValue onValues i w =
     (case find (\<lambda>v. fst v = i) onValues of
        Some widgetOnValue \<Rightarrow>
          if snd widgetOnValue = targetValue
          then w\<lparr>appearanceState := targetValue\<rparr>
          else w\<lparr>appearanceState := ''Off''\<rparr>
      | None \<Rightarrow> w\<lparr>appearanceState := ''Off''\<rparr>)"

definition setMultiWidgetCheckboxValue :: "checkbox \<Rightarrow> string \<Rightarrow> onvalue list \<Rightarrow> checkbox" where
  "setMultiWidgetCheckboxValue checkBox targetValue onValues =
     checkBox\<lparr>fieldV := Some targetValue,
              widgets := map (\<lambda>(i, w). setWidgetAS targetValue onValues i w)
                             (enumerate 0 (widgets checkBox))\<rparr>"

text \<open>
  The two operations of the form library that \<open>fillForm\<close> calls on a checkbox besides
  the direct dictionary writes above. They belong to the library, not to this
  repository, and are parameters of the model.
\<close>

record pdflib =
  pl_check :: "checkbox \<Rightarrow> checkbox"
  pl_uncheck :: "checkbox \<Rightarrow> checkbox"

text \<open>An entry of \<open>filledFields\<close>: the reported value and the reported type.\<close>

type_synonym filled = "string \<times> string"

text \<open>
  The \<open>PDFCheckBox\<close> branch of \<open>fillForm\<close>. \<open>multi\<close> says that the mapping type is
  \<open>'checkbox-multi'\<close>; \<open>v\<close> is the resolved value. A target that is truthy but not a
  string makes \<open>PDFName.of\<close> throw; the per-field \<open>catch\<close> records the error and the
  field is left as it was (\<open>Inl\<close>). A value resolved by the calculated-value
  catalogue is never a function, so \<open>typeof value === 'function'\<close> is false.
\<close>

definition applyCheckBox ::
  "pdflib \<Rightarrow> bool \<Rightarrow> jsval \<Rightarrow> checkbox \<Rightarrow> string + (checkbox \<times> filled option)" where
  "applyCheckBox lib multi v checkBox =
     (let onValues = getCheckboxOnValues checkBox in
      if multi then
        (if truthy v then
           (case v of
              JStr targetValue \<Rightarrow>
                Inr (setMultiWidgetCheckboxValue checkBox targetValue onValues,
                     Some (targetValue, ''checkbox-multi''))
            | _ \<Rightarrow> Inl ''PDFName.of: not a string'')
         else Inr (checkBox, None))
      else if isYesNoCheckbox onValues then
        (let targetValue = (if truthy v then ''Yes'' else ''No'') in
         Inr (setMultiWidgetCheckboxValue checkBox targetValue onValues,
              Some (targetValue, ''checkbox-yesno'')))
      else if isMultiWidgetCheckbox onValues then
        (if v = JBool True \<and> length onValues > 0 then
           (let targetValue = snd (onValues ! 0) in
            Inr (setMultiWidgetCheckboxValue checkBox targetValue onValues,
                 Some (targetValue, ''checkbox-multi'')))
         else
           (case v of
              JStr s \<Rightarrow>
                Inr (setMultiWidgetCheckboxValue checkBox s onValues, Some (s, ''checkbox-multi''))
            | _ \<Rightarrow> Inr (pl_uncheck lib checkBox, Some (''unchecked'', ''checkbox''))))
      else
        (if v = JBool True
         then Inr (pl_check lib checkBox, Some (''checked'', ''checkbox''))
         else Inr (pl_uncheck lib checkBox,
                   Some (if truthy v then ''checked'' else ''unchecked'', ''checkbox''))))"

text \<open>The on-state that \<open>setMultiWidgetCheckboxValue\<close> attributes to widget \<open>i\<close>.\<close>

definition firstOnValue :: "onvalue list \<Rightarrow> nat \<Rightarrow> string option" where
  "firstOnValue onValues i = map_option snd (find (\<lambda>v. fst v = i) onValues)"

section \<open>Auxiliary notions and instances for the examples\<close>

text \<open>The on-states that are active on a field: the appearance states of its widgets
  other than \<open>Off\<close>.\<close>

definition activeStates :: "checkbox \<Rightarrow> string set" where
  "activeStates cb = {s \<in> appearanceState ` set (widgets cb). s \<noteq> ''Off''}"

text \<open>A field with a Yes widget and a No widget.\<close>

definition exYesNo :: checkbox where
  "exYesNo = \<lparr>fieldV = None,
     widgets = [\<lparr>normalKeys = Some [''/Yes'', ''/Off''], appearanceState = ''Yes''\<rparr>,
                \<lparr>normalKeys = Some [''/Off'', ''/No''], appearanceState = ''Off''\<rparr>]\<rparr>"

text \<open>An instance of the form library: \<open>check\<close> selects the first on-value of the
  field (\<open>Yes\<close> when it has none), \<open>uncheck\<close> turns every widget off.\<close>

definition exLib :: pdflib where
  "exLib = \<lparr>
     pl_check = (\<lambda>cb. setMultiWidgetCheckboxValue cb
        (case getCheckboxOnValues cb of [] \<Rightarrow> ''Yes'' | v # _ \<Rightarrow> snd v)
        (getCheckboxOnValues cb)),
     pl_uncheck = (\<lambda>cb. cb\<lparr>fieldV := Some ''Off'',
        widgets := map (\<lambda>w. w\<lparr>appearanceState := ''Off''\<rparr>) (widgets cb)\<rparr>)\<rparr>"

text \<open>A small deterministic library over a counter: seeding sets the counter to the
  seed and every draw advances it by one. A float draw is the double nearest to a
  number of cents.\<close>

definition toyFaker :: "nat faker" where
  "toyFaker = \<lparr>
     fk_seed = (\<lambda>n r. nat n),
     fk_int = (\<lambda>lo hi r. (lo + int (r div 3) mod (hi - lo + 1), Suc r)),
     fk_float = (\<lambda>lo hi digits r.
        (fl (lo + of_nat ((5 * (r div 11)) mod 10000) / 100), Suc r)),
     fk_boolean = (\<lambda>p r. (r mod 3 = 0, Suc r)),
     fk_birthdate = (\<lambda>mn mx ref r.
        (setUTCFullYear ref (YearFromTime ref - mn - int r mod (mx - mn + 1)), Suc r)),
     fk_recent = (\<lambda>days ref r. (ref - msPerDay, Suc r)),
     fk_arrayElement = (\<lambda>xs r. (if xs = [] then [] else xs ! (r mod length xs), Suc r)),
     fk_text = (\<lambda>m args r. (m @ ''-'' @ showNat r, Suc r)),
     fk_root = Module
       [(''person'', Module
           [(''firstName'', Callable (\<lambda>args r. (Some (JStr (''Ada-'' @ showNat r)), Suc r)))]),
        (''number'', Module
           [(''int'', Callable (\<lambda>args r. (Some (JNum (of_nat (4 + r mod 2))), Suc r)))])]\<rparr>"

text \<open>A time zone that is four hours behind UTC until 2025-11-02T06:00:00Z and five
  hours behind from then on: the clocks go back from 02:00 to 01:00 local time, as in
  New York that night.\<close>

definition exZone :: timezone where
  "exZone = \<lparr>
     tzUTCOffset = (\<lambda>t. if t < 1762063200000 then - 14400000 else - 18000000),
     tzLocalOffset = (\<lambda>t. if t < 1762048800000 then - 14400000 else - 18000000)\<rparr>"

text \<open>A clock instant (2025-11-19T02:30:00Z, in the example zone 18 November, 21:30),
  an empty data directory, and the generator constructed there for run id
  \<open>claim-001\<close> without AI, with its dataset.\<close>

definition exNow :: instant where
  "exNow = 1763519400000"

definition exWorld :: "(nat, nat) world" where
  "exWorld = \<lparr>files = [], rng = 0, backend = 0, aiLog = []\<rparr>"

definition exOptions :: "nat options" where
  "exOptions = \<lparr>opt_useAI = None, opt_aiCallback = None\<rparr>"

definition exGenerator :: "nat generator" where
  "exGenerator = fst (projr (newDataGenerator toyFaker exZone ''claim-001'' exOptions exNow exWorld))"

definition exData :: dataset where
  "exData = g_data exGenerator"

text \<open>A backend whose first answer is the failure value (the empty string) and whose
  later answers are texts.\<close>

definition exCallback :: "nat aiCallback" where
  "exCallback prompt category d b =
     (if b = 0 then [] else ''Generated text '' @ showNat b, Suc b)"

text \<open>The example generator with AI enabled, and a world whose backend is past its
  first answer.\<close>

definition exOptionsAI :: "nat options" where
  "exOptionsAI = \<lparr>opt_useAI = Some True, opt_aiCallback = Some exCallback\<rparr>"

definition exGeneratorAI :: "nat generator" where
  "exGeneratorAI = exGenerator\<lparr>g_useAI := True, g_aiCallback := Some exCallback\<rparr>"

definition exWorldUp :: "(nat, nat) world" where
  "exWorldUp = exWorld\<lparr>backend := 1\<rparr>"

text \<open>The generator constructed for the same run id one day later, on an empty data
  directory of its own.\<close>

definition exGeneratorLater :: "nat generator" where
  "exGeneratorLater =
     fst (projr (newDataGenerator toyFaker exZone ''claim-001'' exOptions (exNow + msPerDay) exWorld))"

section \<open>Widget state application\<close>

lemma setWidgetAS_state:
  "appearanceState (setWidgetAS t ovs i w) =
     (if firstOnValue ovs i = Some t then t else ''Off'')"
  by (auto simp: setWidgetAS_def firstOnValue_def split: option.splits)

lemma setMulti_length:
  "length (widgets (setMultiWidgetCheckboxValue cb t ovs)) = length (widgets cb)"
  by (simp add: setMultiWidgetCheckboxValue_def)

lemma setMulti_nth:
  assumes "i < length (widgets cb)"
  shows "appearanceState (widgets (setMultiWidgetCheckboxValue cb t ovs) ! i) =
           (if firstOnValue ovs i = Some t then t else ''Off'')"
  using assms
  by (simp add: setMultiWidgetCheckboxValue_def nth_enumerate_eq setWidgetAS_state)

lemma setMulti_fieldV: "fieldV (setMultiWidgetCheckboxValue cb t ovs) = Some t"
  by (simp add: setMultiWidgetCheckboxValue_def)

lemma onValues_index:
  "(i, s) \<in> set (getCheckboxOnValues cb) \<Longrightarrow> i < length (widgets cb)"
  by (auto simp: getCheckboxOnValues_def widgetOnValues_def in_set_enumerate_eq
           split: option.splits)

lemma find_distinct_fst:
  "distinct (map fst xs) \<Longrightarrow> (i, s) \<in> set xs \<Longrightarrow> find (\<lambda>v. fst v = i) xs = Some (i, s)"
  by (induction xs) (auto simp: image_iff)

lemma firstOnValue_distinct:
  "distinct (map fst xs) \<Longrightarrow> (i, s) \<in> set xs \<Longrightarrow> firstOnValue xs i = Some s"
  by (simp add: firstOnValue_def find_distinct_fst)

lemma activeStates_setMulti:
  "activeStates (setMultiWidgetCheckboxValue cb t ovs) \<subseteq> {t}"
proof
  fix s assume "s \<in> activeStates (setMultiWidgetCheckboxValue cb t ovs)"
  then obtain w where w: "w \<in> set (widgets (setMultiWidgetCheckboxValue cb t ovs))"
    and s: "s = appearanceState w" "s \<noteq> ''Off''"
    by (auto simp: activeStates_def)
  from w obtain i where i: "i < length (widgets cb)"
    and wi: "w = widgets (setMultiWidgetCheckboxValue cb t ovs) ! i"
    by (metis in_set_conv_nth setMulti_length)
  from i wi s show "s \<in> {t}"
    by (simp add: setMulti_nth split: if_splits)
qed

lemma exYesNo_onValues: "getCheckboxOnValues exYesNo = [(0, ''Yes''), (1, ''No'')]"
  by (simp add: getCheckboxOnValues_def exYesNo_def widgetOnValues_def enumerate_eq_zip)

section \<open>Properties of the calendar\<close>









lemma DaysInYear_bounds: "365 \<le> DaysInYear y \<and> DaysInYear y \<le> 366"
  by (simp add: DaysInYear_def)

lemma DayFromYear_diff:
  "365 * int k \<le> DayFromYear y - DayFromYear (y - int k)
     \<and> DayFromYear y - DayFromYear (y - int k) \<le> 366 * int k"
proof (induction k)
  case 0
  then show ?case by simp
next
  case (Suc k)
  have "DayFromYear (y - int (Suc k) + 1) = DayFromYear (y - int (Suc k)) + DaysInYear (y - int (Suc k))"
    by (rule DayFromYear_Suc)
  moreover have "y - int (Suc k) + 1 = y - int k" by simp
  ultimately have "DayFromYear (y - int k) = DayFromYear (y - int (Suc k)) + DaysInYear (y - int (Suc k))"
    by simp
  with Suc DaysInYear_bounds [of "y - int (Suc k)"] show ?case by simp
qed







lemma yearSearch_spec:
  "DayFromYear y \<le> d \<Longrightarrow>
     DayFromYear (yearSearch d y) \<le> d \<and> d < DayFromYear (yearSearch d y + 1)"
proof (induction d y rule: yearSearch.induct)
  case (1 d y)
  show ?case
  proof (cases "DayFromYear (y + 1) \<le> d")
    case True
    from "1.IH" [OF True True] show ?thesis
      by (subst (1 2) yearSearch.simps) (simp add: True)
  next
    case False
    with "1.prems" show ?thesis
      by (subst (1 2) yearSearch.simps) simp
  qed
qed

lemma DayFromYear_1970: "DayFromYear 1970 = 0"
  by (simp add: DayFromYear_def)

text \<open>\<open>YearFromTime\<close> is the year whose days include the day of the instant.\<close>

lemma YearFromTime_spec:
  "DayFromYear (YearFromTime t) \<le> Day t \<and> Day t < DayFromYear (YearFromTime t + 1)"
proof -
  let ?d = "Day t"
  let ?y0 = "if 0 \<le> ?d then 1970 + ?d div 366 else 1970 + ?d div 365 - 1"
  have "DayFromYear ?y0 \<le> ?d"
  proof (cases "0 \<le> ?d")
    case True
    let ?k = "?d div 366"
    have k: "0 \<le> ?k" using True by (simp add: pos_imp_zdiv_nonneg_iff)
    have "DayFromYear (1970 + ?k) - DayFromYear (1970 + ?k - int (nat ?k)) \<le> 366 * int (nat ?k)"
      using DayFromYear_diff [of "nat ?k" "1970 + ?k"] by simp
    then have "DayFromYear (1970 + ?k) \<le> 366 * ?k"
      using k by (simp add: DayFromYear_1970)
    moreover have "366 * ?k \<le> ?d"
      using mult_div_mod_eq [of 366 ?d] pos_mod_sign [of 366 ?d] by linarith
    ultimately show ?thesis using True by simp
  next
    case False
    let ?j = "1 - ?d div 365"
    have j: "0 \<le> ?j" using False by (simp add: div_neg_pos_less0 less_imp_le)
    have "365 * int (nat ?j) \<le> DayFromYear 1970 - DayFromYear (1970 - int (nat ?j))"
      using DayFromYear_diff [of "nat ?j" 1970] by simp
    then have "DayFromYear (1970 - ?j) \<le> - 365 * ?j"
      using j by (simp add: DayFromYear_1970)
    moreover have "- 365 * ?j \<le> ?d"
    proof -
      have b: "?d mod 365 < 365" by simp
      have e: "365 * (?d div 365) + ?d mod 365 = ?d" by (rule mult_div_mod_eq)
      have "- 365 * ?j = 365 * (?d div 365) - 365" by (simp add: algebra_simps)
      with b e show ?thesis by linarith
    qed
    moreover have "1970 - ?j = 1970 + ?d div 365 - 1" by simp
    ultimately show ?thesis using False by simp
  qed
  from yearSearch_spec [OF this] show ?thesis
    by (simp add: YearFromTime_def Let_def)
qed

lemma DayWithinYear_range:
  "0 \<le> DayWithinYear t \<and> DayWithinYear t < DaysInYear (YearFromTime t)"
  using YearFromTime_spec [of t] DayFromYear_Suc [of "YearFromTime t"]
  by (simp add: DayWithinYear_def)


section \<open>Properties of a time zone\<close>



section \<open>The example library meets the contracts\<close>

lemma toy_seed_resets: "seed_resets toyFaker"
  by (simp add: seed_resets_def toyFaker_def)

lemma toy_int_in_range: "int_in_range toyFaker"
proof -
  have "lo \<le> lo + x mod (hi - lo + 1) \<and> lo + x mod (hi - lo + 1) \<le> hi"
    if "lo \<le> hi" for lo hi x :: int
  proof -
    have p: "0 < hi - lo + 1" using that by simp
    show ?thesis using pos_mod_sign [OF p, of x] pos_mod_bound [OF p, of x] by linarith
  qed
  then show ?thesis by (simp add: int_in_range_def toyFaker_def)
qed


lemma toy_arrayElement_member: "arrayElement_member toyFaker"
  by (simp add: arrayElement_member_def toyFaker_def)

lemma toy_company_name_nonempty: "company_name_nonempty toyFaker"
  by (simp add: company_name_nonempty_def toyFaker_def)

section \<open>Properties of the builder\<close>

lemma foldl_gross:
  "foldl (\<lambda>sum w. fadd sum (grossAmount w)) a ws = foldl fadd a (map grossAmount ws)"
  by (induction ws arbitrary: a) simp_all

lemma weeklyWagesLoop_shape_aux:
  "nat (9 - i) = n \<Longrightarrow> i \<le> 9 \<Longrightarrow>
     map weekNumber (fst (weeklyWagesLoop fk tz l b i acc r)) = map weekNumber acc @ [i..8]"
proof (induction n arbitrary: i acc r)
  case 0
  then have "i = 9" by simp
  then show ?case by (subst weeklyWagesLoop.simps) simp
next
  case (Suc n)
  then have i: "i \<le> 8" by simp
  have up: "[i..8] = i # [i + 1..8]" using i by (simp add: upto_rec1)
  have n: "nat (9 - (i + 1)) = n" "i + 1 \<le> 9" using Suc.prems by simp_all
  show ?case
    apply (subst weeklyWagesLoop.simps)
    apply (simp add: i Let_def split_beta up Suc.IH [OF n])
    done
qed

lemma weeklyWagesLoop_shape:
  "map weekNumber (fst (weeklyWagesLoop fk tz l b 1 [] r)) = [1..8]"
  using weeklyWagesLoop_shape_aux [of 1 8 fk tz l b "[]" r] by simp

lemma gbd_elim:
  assumes "generateBaseData fk tz rid sd now r = Inr (d, r')"
  obtains loc r20 drw dd where "baseLocals fk tz now r = (loc, r20)"
    and "baseLiteralDraws fk tz now loc r20 = (drw, r')"
    and "sampleAt (l_disabilityIndex loc) = Some dd"
    and "d = baseLiteral tz rid sd now loc drw dd"
  using assms by (auto simp: generateBaseData_def Let_def split: prod.splits option.splits)

lemma locals_index:
  "l_disabilityIndex (fst (baseLocals fk tz now r)) =
     fst (fk_int fk 0 4
       (snd (weeklyWagesLoop fk tz (l_lastDayWorked (fst (baseLocals fk tz now r)))
          (l_baseWeeklyWage (fst (baseLocals fk tz now r))) 1 []
          (snd (fk_float fk 800 2500 2 (snd (fk_birthdate fk 25 60 now
            (snd (fk_int fk 1 10 (snd (fk_int fk 7 21 r)))))))))))"
  by (simp add: baseLocals_def Let_def split_beta SampleDisabilityDescriptions_def)

lemma locals_index_range:
  assumes "int_in_range fk"
  shows "0 \<le> l_disabilityIndex (fst (baseLocals fk tz now r))
       \<and> l_disabilityIndex (fst (baseLocals fk tz now r)) \<le> 4"
  using assms unfolding locals_index int_in_range_def by simp

lemma sampleAt_Some: "0 \<le> i \<Longrightarrow> i \<le> 4 \<Longrightarrow> sampleAt i = Some (SampleDisabilityDescriptions ! nat i)"
  by (simp add: sampleAt_def SampleDisabilityDescriptions_def)

lemma gbd_total:
  assumes "int_in_range fk"
  shows "\<exists>d r'. generateBaseData fk tz rid sd now r = Inr (d, r')"
  using locals_index_range [OF assms, of tz now r]
  by (simp add: generateBaseData_def Let_def split_beta sampleAt_Some)

lemma toLocaleDateString_nonempty: "toLocaleDateString tz t \<noteq> []"
  by (simp add: toLocaleDateString_def)

lemma locals_employerName:
  "\<exists>r'. l_employerName (fst (baseLocals fk tz now r)) = fst (fk_text fk ''company.name'' [] r')"
  by (simp add: baseLocals_def Let_def split_beta) blast

lemma locals_wages:
  "l_averageWeeklyWage (fst (baseLocals fk tz now r)) =
     fdiv (foldl (\<lambda>sum w. fadd sum (grossAmount w)) 0
             (l_weeklyWages (fst (baseLocals fk tz now r)))) 8
   \<and> map weekNumber (l_weeklyWages (fst (baseLocals fk tz now r))) = [1..8]"
  by (simp add: baseLocals_def Let_def split_beta weeklyWagesLoop_shape)

lemma locals_dates:
  "l_disabilityStartDate (fst (baseLocals fk tz now r)) =
       setDate tz now (getDate tz now - fst (fk_int fk 7 21 r))
   \<and> l_lastDayWorked (fst (baseLocals fk tz now r)) =
       setDate tz (l_disabilityStartDate (fst (baseLocals fk tz now r)))
         (getDate tz (l_disabilityStartDate (fst (baseLocals fk tz now r))) - 1)
   \<and> l_employmentStartDate (fst (baseLocals fk tz now r)) =
       setFullYear tz (l_lastDayWorked (fst (baseLocals fk tz now r)))
         (getFullYear tz (l_lastDayWorked (fst (baseLocals fk tz now r)))
            - fst (fk_int fk 1 10 (snd (fk_int fk 7 21 r))))
   \<and> l_dateOfBirth (fst (baseLocals fk tz now r)) =
       fst (fk_birthdate fk 25 60 now (snd (fk_int fk 1 10 (snd (fk_int fk 7 21 r)))))"
  by (simp add: baseLocals_def Let_def split_beta)

lemma draws_gated:
  assumes "arrayElement_member fk"
  shows "(d_workedForWagesDates (fst (baseLiteralDraws fk tz now loc r)) = []
            \<longleftrightarrow> \<not> workedForWages (l_checkboxStates loc))
       \<and> (d_wagesContinuedType (fst (baseLiteralDraws fk tz now loc r)) = []
            \<longleftrightarrow> \<not> wagesContinued (l_checkboxStates loc))"
proof -
  have "fst (fk_arrayElement fk [''PTO'', ''Sick time'', ''Salary continuation''] r') \<noteq> []" for r'
    using assms [unfolded arrayElement_member_def, rule_format,
                 of "[''PTO'', ''Sick time'', ''Salary continuation'']" r']
    by auto
  then show ?thesis
    by (simp add: baseLiteralDraws_def Let_def split_beta toLocaleDateString_nonempty)
qed

section \<open>Properties of the constructor\<close>

lemma ndg_hit:
  assumes "map_of (files w) rid = Some d"
  shows "newDataGenerator fk tz rid opts now w =
           Inr (\<lparr>g_runId = rid, g_seed = hashString rid,
                  g_useAI = (case opt_useAI opts of Some b \<Rightarrow> b | None \<Rightarrow> False),
                  g_aiCallback = opt_aiCallback opts, g_data = d\<rparr>, w)"
  using assms by (simp add: newDataGenerator_def)

lemma ndg_miss:
  assumes "map_of (files w) rid = None"
    and "generateBaseData fk tz rid (hashString rid) now (fk_seed fk (hashString rid) (rng w)) = Inr (d, r')"
  shows "newDataGenerator fk tz rid opts now w =
           Inr (\<lparr>g_runId = rid, g_seed = hashString rid,
                  g_useAI = (case opt_useAI opts of Some b \<Rightarrow> b | None \<Rightarrow> False),
                  g_aiCallback = opt_aiCallback opts, g_data = d\<rparr>,
                w\<lparr>files := AList.update rid d (files w), rng := r'\<rparr>)"
  using assms by (simp add: newDataGenerator_def saveData_def)

lemma ndg_miss_err:
  assumes "map_of (files w) rid = None"
    and "generateBaseData fk tz rid (hashString rid) now (fk_seed fk (hashString rid) (rng w)) = Inl e"
  shows "newDataGenerator fk tz rid opts now w = Inl e"
  using assms by (simp add: newDataGenerator_def)

lemma ndg_seed:
  assumes "newDataGenerator fk tz rid opts now w = Inr (g, w')"
  shows "g_seed g = hashString rid \<and> g_runId g = rid"
  using assms
  by (auto simp: newDataGenerator_def Let_def split: option.splits sum.splits)

lemma hash_claim_001: "hashString ''claim-001'' = 302753504"
  by (simp add: hashString_def)

lemma ex_build:
  "\<exists>d r'. generateBaseData toyFaker exZone ''claim-001'' (hashString ''claim-001'') exNow
      (fk_seed toyFaker (hashString ''claim-001'') 0) = Inr (d, r')"
  by (rule gbd_total [OF toy_int_in_range])

lemma exGenerator_eq:
  "\<exists>w'. newDataGenerator toyFaker exZone ''claim-001'' exOptions exNow exWorld = Inr (exGenerator, w')"
proof -
  from ex_build obtain d r' where
    "generateBaseData toyFaker exZone ''claim-001'' (hashString ''claim-001'') exNow
      (fk_seed toyFaker (hashString ''claim-001'') (rng exWorld)) = Inr (d, r')"
    by (auto simp: exWorld_def)
  then have "\<exists>g w'. newDataGenerator toyFaker exZone ''claim-001'' exOptions exNow exWorld = Inr (g, w')"
    using ndg_miss [of exWorld "''claim-001''" toyFaker exZone exNow d r' exOptions]
    by (simp add: exWorld_def)
  then show ?thesis by (auto simp: exGenerator_def)
qed

lemma ndg_fresh:
  assumes "map_of (files w) rid = None"
    and "newDataGenerator fk tz rid opts now w = Inr (g, w')"
  shows "\<exists>r'. generateBaseData fk tz rid (hashString rid) now (fk_seed fk (hashString rid) (rng w))
                 = Inr (g_data g, r')
              \<and> w' = w\<lparr>files := AList.update rid (g_data g) (files w), rng := r'\<rparr>"
proof (cases "generateBaseData fk tz rid (hashString rid) now (fk_seed fk (hashString rid) (rng w))")
  case (Inl e)
  with assms ndg_miss_err [OF assms(1) Inl, of opts] show ?thesis by simp
next
  case (Inr p)
  obtain d r' where p: "p = (d, r')" by (cases p)
  from ndg_miss [OF assms(1) Inr [unfolded p], of opts] assms(2)
  have "g_data g = d" "w' = w\<lparr>files := AList.update rid d (files w), rng := r'\<rparr>"
    by auto
  with Inr p show ?thesis by simp
qed

lemma ndg_options:
  assumes "newDataGenerator fk tz rid opts now w = Inr (g, w')"
  shows "g_useAI g = (case opt_useAI opts of Some b \<Rightarrow> b | None \<Rightarrow> False)
       \<and> g_aiCallback g = opt_aiCallback opts"
  using assms
  by (auto simp: newDataGenerator_def Let_def split: option.splits sum.splits)

lemma exData_build:
  "\<exists>r'. generateBaseData toyFaker exZone ''claim-001'' 302753504 exNow 302753504 = Inr (exData, r')"
proof -
  from exGenerator_eq obtain w' where
    e: "newDataGenerator toyFaker exZone ''claim-001'' exOptions exNow exWorld = Inr (exGenerator, w')"
    by blast
  have f: "map_of (files exWorld) ''claim-001'' = None" by (simp add: exWorld_def)
  have s: "fk_seed toyFaker 302753504 (rng exWorld) = 302753504"
    by (simp add: toyFaker_def)
  from ndg_fresh [OF f e] show ?thesis
    unfolding exData_def hash_claim_001 s by blast
qed

lemma toy_firstName_value:
  "fst (getFakerValue toyFaker g ''person.firstName'' [] r) = JStr (''Ada-'' @ showNat (nat (g_seed g)))"
  by (simp add: getFakerValue_def toyFaker_def Let_def)

lemma gbd_unemploymentExplanation:
  assumes "generateBaseData fk tz rid sd now r = Inr (d, r')"
  shows "unemploymentExplanation (conditionalData d) =
           (if unemploymentBenefits (checkboxes d) then []
            else ''Did not apply for unemployment benefits as disability began while employed.'')"
proof -
  from assms obtain loc r20 drw dd where d: "d = baseLiteral tz rid sd now loc drw dd"
    by (rule gbd_elim)
  show ?thesis unfolding d baseLiteral_def Let_def by simp
qed

lemma gbd_dates:
  assumes "generateBaseData fk tz rid sd now r = Inr (d, r')"
  shows "signatureDate (dates d) = now
       \<and> disabilityStart (dates d) = setDate tz now (getDate tz now - fst (fk_int fk 7 21 r))
       \<and> lastDayWorked (dates d) =
           setDate tz (disabilityStart (dates d)) (getDate tz (disabilityStart (dates d)) - 1)
       \<and> employmentStart (dates d) =
           setFullYear tz (lastDayWorked (dates d))
             (getFullYear tz (lastDayWorked (dates d)) - fst (fk_int fk 1 10 (snd (fk_int fk 7 21 r))))
       \<and> dateOfBirth (claimant d) =
           fst (fk_birthdate fk 25 60 now (snd (fk_int fk 1 10 (snd (fk_int fk 7 21 r)))))"
proof -
  from assms obtain loc r20 drw dd where
    loc: "baseLocals fk tz now r = (loc, r20)"
    and d: "d = baseLiteral tz rid sd now loc drw dd"
    by (rule gbd_elim)
  have l: "fst (baseLocals fk tz now r) = loc" using loc by simp
  show ?thesis
    using locals_dates [of fk tz now r] unfolding l d baseLiteral_def Let_def by simp
qed

lemma gbd_aiContent:
  assumes "generateBaseData fk tz rid sd now r = Inr (d, r')"
  shows "aiContent d = None"
proof -
  from assms obtain loc r20 drw dd where d: "d = baseLiteral tz rid sd now loc drw dd"
    by (rule gbd_elim)
  show ?thesis unfolding d baseLiteral_def Let_def by simp
qed

lemma exData_aiContent: "aiContent exData = None"
proof -
  from exData_build obtain r' where
    "generateBaseData toyFaker exZone ''claim-001'' 302753504 exNow 302753504 = Inr (exData, r')"
    by blast
  then show ?thesis by (rule gbd_aiContent)
qed

lemma cachedContent_update:
  "s \<noteq> [] \<Longrightarrow> cachedContent (AList.update c s content) c = Some s"
  by (simp add: cachedContent_def update_conv')

lemma getAIValue_hit:
  assumes "g_useAI g" and "g_aiCallback g = Some cb"
    and "aiContent (g_data g) = Some content" and "cachedContent content c = Some s"
  shows "getAIValue g f p c w = (s, g, w)"
  using assms by (simp add: getAIValue_def)

lemma getAIValue_miss:
  assumes "g_useAI g" and "g_aiCallback g = Some cb"
    and "cachedContent (case aiContent (g_data g) of None \<Rightarrow> [] | Some x \<Rightarrow> x) c = None"
  shows "getAIValue g f p c w =
     (let content0 = (case aiContent (g_data g) of None \<Rightarrow> [] | Some x \<Rightarrow> x);
          g1 = g\<lparr>g_data := (g_data g)\<lparr>aiContent := Some content0\<rparr>\<rparr>;
          res = cb p c (g_data g1) (backend w);
          g2 = g1\<lparr>g_data := (g_data g1)\<lparr>aiContent :=
                  Some (AList.update c (fst res) content0)\<rparr>\<rparr>
      in (fst res, g2,
          saveData g2 (w\<lparr>backend := snd res, aiLog := aiLog w @ [(p, c)]\<rparr>)))"
  using assms by (simp add: getAIValue_def Let_def split_beta)

lemma getAIValue_first:
  assumes "g_useAI g" and "g_aiCallback g = Some cb"
    and "getAIValue g f p c w = (s, g', w')"
  shows "g_useAI g' \<and> g_aiCallback g' = Some cb
       \<and> (\<exists>content. aiContent (g_data g') = Some content
             \<and> (s \<noteq> [] \<longrightarrow> cachedContent content c = Some s))
       \<and> length (aiLog w') \<le> length (aiLog w) + 1"
proof (cases "cachedContent (case aiContent (g_data g) of None \<Rightarrow> [] | Some x \<Rightarrow> x) c")
  case None
  from getAIValue_miss [OF assms(1,2) None, of f p w] assms(3)
  show ?thesis
    by (auto simp: Let_def saveData_def assms(1,2) cachedContent_update)
next
  case (Some t)
  with assms show ?thesis
    by (auto simp: getAIValue_def)
qed

lemma exGeneratorAI_facts:
  "g_useAI exGeneratorAI" "g_aiCallback exGeneratorAI = Some exCallback"
  "aiContent (g_data exGeneratorAI) = None"
  using exData_aiContent by (simp_all add: exGeneratorAI_def exData_def)

lemma ex_first_down:
  "getAIValue exGeneratorAI ''field'' ''prompt'' ''disability_description'' exWorld =
     ([], exGeneratorAI\<lparr>g_data := (g_data exGeneratorAI)\<lparr>aiContent :=
              Some [(''disability_description'', [])]\<rparr>\<rparr>,
      saveData (exGeneratorAI\<lparr>g_data := (g_data exGeneratorAI)\<lparr>aiContent :=
              Some [(''disability_description'', [])]\<rparr>\<rparr>)
        (exWorld\<lparr>backend := 1, aiLog := [(''prompt'', ''disability_description'')]\<rparr>))"
proof -
  have m: "cachedContent (case aiContent (g_data exGeneratorAI) of None \<Rightarrow> [] | Some x \<Rightarrow> x)
             ''disability_description'' = None"
    by (simp add: exGeneratorAI_facts cachedContent_def)
  show ?thesis
    unfolding getAIValue_miss [OF exGeneratorAI_facts(1,2) m]
    by (simp add: Let_def exGeneratorAI_facts exCallback_def exWorld_def)
qed

lemma ndg_total:
  assumes "int_in_range fk"
  shows "\<exists>g w'. newDataGenerator fk tz rid opts now w = Inr (g, w')"
proof (cases "map_of (files w) rid")
  case None
  from gbd_total [OF assms, of tz rid "hashString rid" now "fk_seed fk (hashString rid) (rng w)"]
  obtain d r' where
    "generateBaseData fk tz rid (hashString rid) now (fk_seed fk (hashString rid) (rng w)) = Inr (d, r')"
    by blast
  from ndg_miss [OF None this, of opts] show ?thesis by blast
next
  case (Some d)
  from ndg_hit [OF Some, of fk tz opts now] show ?thesis by blast
qed

lemma ndg_fresh_signature:
  assumes "map_of (files w) rid = None"
    and "newDataGenerator fk tz rid opts now w = Inr (g, w')"
  shows "signatureDate (dates (g_data g)) = now"
proof -
  from ndg_fresh [OF assms] obtain r' where
    "generateBaseData fk tz rid (hashString rid) now (fk_seed fk (hashString rid) (rng w))
       = Inr (g_data g, r')"
    by blast
  from gbd_dates [OF this] show ?thesis by simp
qed

lemma gbd_description:
  assumes "generateBaseData fk tz rid sd now r = Inr (d, r')"
  shows "sampleAt (l_disabilityIndex (fst (baseLocals fk tz now r)))
           = Some (description1 (disability d), description2 (disability d))"
proof -
  from assms obtain loc r20 drw dd where
    loc: "baseLocals fk tz now r = (loc, r20)"
    and dd: "sampleAt (l_disabilityIndex loc) = Some dd"
    and d: "d = baseLiteral tz rid sd now loc drw dd"
    by (rule gbd_elim)
  have "disability d = \<lparr>description1 = fst dd, description2 = snd dd\<rparr>"
    unfolding d baseLiteral_def Let_def by simp
  with loc dd show ?thesis by simp
qed

lemma getAIValue_disabled:
  assumes "\<not> g_useAI g"
  shows "getAIValue g f p ''disability_description'' w = (description1 (disability (g_data g)), g, w)"
  using assms by (simp add: getAIValue_def)

lemma hash_claim_001_mod: "hashString ''claim-001'' mod 5 = 4"
  by (simp add: hash_claim_001)

lemma toy_loop_state_aux:
  "nat (9 - i) = n \<Longrightarrow> i \<le> 9 \<Longrightarrow>
     snd (weeklyWagesLoop toyFaker tz l b i acc r) = r + 2 * n"
proof (induction n arbitrary: i acc r)
  case 0
  then have "i = 9" by simp
  then show ?case by (subst weeklyWagesLoop.simps) simp
next
  case (Suc n)
  then have i: "i \<le> 8" by simp
  have n: "nat (9 - (i + 1)) = n" "i + 1 \<le> 9" using Suc.prems by simp_all
  have t: "snd (fk_int toyFaker a c x) = Suc x" "snd (fk_float toyFaker u v e x) = Suc x"
    for a c x u v e
    by (simp_all add: toyFaker_def)
  show ?case
    apply (subst weeklyWagesLoop.simps)
    apply (simp add: i Let_def split_beta Suc.IH [OF n] t)
    done
qed

lemma toy_index: "l_disabilityIndex (fst (baseLocals toyFaker tz now 302753504)) = 1"
proof -
  have t: "snd (fk_int toyFaker a c x) = Suc x" "snd (fk_float toyFaker u v e x) = Suc x"
    "snd (fk_birthdate toyFaker a c z x) = Suc x"
    for a c x u v e z
    by (simp_all add: toyFaker_def)
  have l: "snd (weeklyWagesLoop toyFaker tz l b 1 [] x) = x + 16" for l b x
    using toy_loop_state_aux [of 1 8 tz l b "[]" x] by simp
  have i: "fst (fk_int toyFaker 0 4 302753524) = 1"
    by (simp add: toyFaker_def)
  show ?thesis
    unfolding locals_index t l by (simp add: i)
qed

section \<open>The example dataset evaluated\<close>







lemma toy_float:
  "fk_float toyFaker 800 2500 2 302753507 = (fl (85230 / 100), 302753508)"
  by (simp add: toyFaker_def)

lemma toy_rounds:
  "round2 (fadd (fl (85230 / 100)) (fl (- 4770 / 100))) = fl (80460 / 100)"
  "round2 (fadd (fl (85230 / 100)) (fl (- 4765 / 100))) = fl (80465 / 100)"
  by code_simp+

lemma toy_gross:
  "map grossAmount (fst (weeklyWagesLoop toyFaker tz l (fl (85230 / 100)) 1 [] 302753508)) =
     [fl (80460 / 100), fl (80460 / 100), fl (80460 / 100), fl (80460 / 100),
      fl (80465 / 100), fl (80465 / 100), fl (80465 / 100), fl (80465 / 100)]"
  by (simp add: weeklyWagesLoop.simps toyFaker_def Let_def split_beta toy_rounds [simplified])

lemma toy_locals_wages:
  "map grossAmount (l_weeklyWages (fst (baseLocals toyFaker tz now 302753504))) =
     [fl (80460 / 100), fl (80460 / 100), fl (80460 / 100), fl (80460 / 100),
      fl (80465 / 100), fl (80465 / 100), fl (80465 / 100), fl (80465 / 100)]"
proof -
  have t: "snd (fk_int toyFaker a c x) = Suc x"
    "snd (fk_birthdate toyFaker a c z x) = Suc x"
    for a c x z
    by (simp_all add: toyFaker_def)
  have "l_weeklyWages (fst (baseLocals toyFaker tz now 302753504)) =
          fst (weeklyWagesLoop toyFaker tz
                (l_lastDayWorked (fst (baseLocals toyFaker tz now 302753504)))
                (fl (85230 / 100)) 1 [] 302753508)"
    by (simp add: baseLocals_def Let_def split_beta t toy_float)
  then show ?thesis by (simp only: toy_gross)
qed

text \<open>The mean of the example ledger is 804.625; computed in doubles it is just below,
  and the value stored is the double nearest to 804.62.\<close>

lemma toy_average:
  "round2 (fdiv (foldl fadd 0
       [fl (80460 / 100), fl (80460 / 100), fl (80460 / 100), fl (80460 / 100),
        fl (80465 / 100), fl (80465 / 100), fl (80465 / 100), fl (80465 / 100)]) 8)
     = fl (80462 / 100)"
  by code_simp

lemma toy_mean:
  "sum_list
       [fl (80460 / 100), fl (80460 / 100), fl (80460 / 100), fl (80460 / 100),
        fl (80465 / 100), fl (80465 / 100), fl (80465 / 100), fl (80465 / 100)] / 8
     = 6437 / 8"
  by code_simp

lemma toy_doubles:
  "fl (80462 / 100) = 7077512367529001 / 8796093022208"
  "fl (80463 / 100) = 7077600328459223 / 8796093022208"
  by code_simp+

lemma exData_wages:
  "map grossAmount (weeklyWages (wages exData)) =
     [fl (80460 / 100), fl (80460 / 100), fl (80460 / 100), fl (80460 / 100),
      fl (80465 / 100), fl (80465 / 100), fl (80465 / 100), fl (80465 / 100)]
   \<and> averageWeeklyWage (wages exData) = fl (80462 / 100)"
proof -
  from exData_build obtain r' where
    b: "generateBaseData toyFaker exZone ''claim-001'' 302753504 exNow 302753504 = Inr (exData, r')"
    by blast
  from b obtain loc r20 drw dd where
    loc: "baseLocals toyFaker exZone exNow 302753504 = (loc, r20)"
    and d: "exData = baseLiteral exZone ''claim-001'' 302753504 exNow loc drw dd"
    by (rule gbd_elim)
  have w: "wages exData = \<lparr>weeklyWages = l_weeklyWages loc,
              averageWeeklyWage = round2 (l_averageWeeklyWage loc),
              baseWeeklyWage = l_baseWeeklyWage loc\<rparr>"
    unfolding d baseLiteral_def Let_def by simp
  have g: "map grossAmount (l_weeklyWages loc) =
     [fl (80460 / 100), fl (80460 / 100), fl (80460 / 100), fl (80460 / 100),
      fl (80465 / 100), fl (80465 / 100), fl (80465 / 100), fl (80465 / 100)]"
    using toy_locals_wages [of exZone exNow] loc by simp
  have a: "l_averageWeeklyWage loc = fdiv (foldl fadd 0 (map grossAmount (l_weeklyWages loc))) 8"
    using locals_wages [of toyFaker exZone exNow 302753504] loc by (simp add: foldl_gross)
  have "round2 (l_averageWeeklyWage loc) = fl (80462 / 100)"
    unfolding a g by (rule toy_average)
  with w g show ?thesis by simp
qed

section \<open>The claims\<close>

subsection \<open>C1\<close>

text \<open>
  C1 (as amended). In every dataset that \<open>generateBaseData\<close> returns, each conditional
  field of \<open>priorBenefits\<close> and \<open>conditionalData\<close> is empty or null exactly when its
  gating checkbox state is false (the library returning a non-empty company name and
  an element of the array it is given), with one exception by design:
  \<open>unemploymentExplanation\<close> explains why no unemployment benefits were claimed, and
  is empty exactly when \<open>unemploymentBenefits\<close> is true.
\<close>

theorem C1_gating:
  assumes "company_name_nonempty fk" and "arrayElement_member fk"
    and "generateBaseData fk tz rid sd now r = Inr (d, r')"
  shows "(claimedFrom (priorBenefits d) = [] \<longleftrightarrow> \<not> receivingWages (checkboxes d))
       \<and> (claimedPeriodStart (priorBenefits d) = None \<longleftrightarrow> \<not> receivingWages (checkboxes d))
       \<and> (claimedPeriodEnd (priorBenefits d) = None \<longleftrightarrow> \<not> receivingWages (checkboxes d))
       \<and> (priorDisabilityPaidBy (priorBenefits d) = [] \<longleftrightarrow> \<not> priorDisability (checkboxes d))
       \<and> (priorDisabilityStart (priorBenefits d) = None \<longleftrightarrow> \<not> priorDisability (checkboxes d))
       \<and> (priorDisabilityEnd (priorBenefits d) = None \<longleftrightarrow> \<not> priorDisability (checkboxes d))
       \<and> (priorPFLPaidBy (priorBenefits d) = [] \<longleftrightarrow> \<not> priorPFL (checkboxes d))
       \<and> (priorPFLStart (priorBenefits d) = None \<longleftrightarrow> \<not> priorPFL (checkboxes d))
       \<and> (priorPFLEnd (priorBenefits d) = None \<longleftrightarrow> \<not> priorPFL (checkboxes d))
       \<and> (returnToWorkDate (conditionalData d) = None \<longleftrightarrow> \<not> hasRecovered (checkboxes d))
       \<and> (workedForWagesDates (conditionalData d) = [] \<longleftrightarrow> \<not> workedForWages (checkboxes d))
       \<and> (unemploymentPeriods (conditionalData d) = []
            \<longleftrightarrow> \<not> unemploymentBenefits (checkboxes d))
       \<and> (wagesContinuedType (conditionalData d) = [] \<longleftrightarrow> \<not> wagesContinued (checkboxes d))
       \<and> (priorDisabilityDates (conditionalData d) = [] \<longleftrightarrow> \<not> priorLeave (checkboxes d))
       \<and> (priorPFLDates (conditionalData d) = [] \<longleftrightarrow> \<not> priorPFL (checkboxes d))
       \<and> (unemploymentExplanation (conditionalData d) = []
            \<longleftrightarrow> unemploymentBenefits (checkboxes d))"
proof -
  from assms(3) obtain loc r20 drw dd where
    loc: "baseLocals fk tz now r = (loc, r20)"
    and drw: "baseLiteralDraws fk tz now loc r20 = (drw, r')"
    and d: "d = baseLiteral tz rid sd now loc drw dd"
    by (rule gbd_elim)
  have name: "l_employerName loc \<noteq> []"
  proof -
    from locals_employerName [of fk tz now r] loc obtain r9 where
      "l_employerName loc = fst (fk_text fk ''company.name'' [] r9)"
      by auto
    moreover have "fst (fk_text fk ''company.name'' [] r9) \<noteq> []"
      using assms(1) by (simp add: company_name_nonempty_def)
    ultimately show ?thesis by simp
  qed
  have g: "d_workedForWagesDates drw = [] \<longleftrightarrow> \<not> workedForWages (l_checkboxStates loc)"
    "d_wagesContinuedType drw = [] \<longleftrightarrow> \<not> wagesContinued (l_checkboxStates loc)"
    using draws_gated [OF assms(2), of tz now loc r20] drw by simp_all
  show ?thesis
    unfolding d baseLiteral_def Let_def
    by (simp add: name g toLocaleDateString_nonempty)
qed

text \<open>On the example dataset the claimed equivalence fails for \<open>unemploymentExplanation\<close>.\<close>

theorem C1_gating_counterexample:
  "unemploymentExplanation (conditionalData exData) =
     (if unemploymentBenefits (checkboxes exData) then []
      else ''Did not apply for unemployment benefits as disability began while employed.'')
   \<and> \<not> (unemploymentExplanation (conditionalData exData) = []
        \<longleftrightarrow> \<not> unemploymentBenefits (checkboxes exData))"
proof -
  from exData_build obtain r' where
    "generateBaseData toyFaker exZone ''claim-001'' 302753504 exNow 302753504 = Inr (exData, r')"
    by blast
  then have e: "unemploymentExplanation (conditionalData exData) =
     (if unemploymentBenefits (checkboxes exData) then []
      else ''Did not apply for unemployment benefits as disability began while employed.'')"
    by (rule gbd_unemploymentExplanation)
  show ?thesis
    by (cases "unemploymentBenefits (checkboxes exData)") (simp_all add: e)
qed

text \<open>The hypotheses hold for the example library and its dataset.\<close>

theorem C1_gating_witness:
  "company_name_nonempty toyFaker \<and> arrayElement_member toyFaker
   \<and> (\<exists>r'. generateBaseData toyFaker exZone ''claim-001'' 302753504 exNow 302753504 = Inr (exData, r'))
   \<and> (claimedFrom (priorBenefits exData) = []) = (\<not> receivingWages (checkboxes exData))
   \<and> (wagesContinuedType (conditionalData exData) = []) = (\<not> wagesContinued (checkboxes exData))
   \<and> (unemploymentExplanation (conditionalData exData) = [])
        = unemploymentBenefits (checkboxes exData)"
proof -
  from exData_build obtain r' where
    b: "generateBaseData toyFaker exZone ''claim-001'' 302753504 exNow 302753504 = Inr (exData, r')"
    by blast
  from C1_gating [OF toy_company_name_nonempty toy_arrayElement_member b]
    toy_company_name_nonempty toy_arrayElement_member b
  show ?thesis by blast
qed

subsection \<open>C2\<close>

text \<open>
  C2 (as amended). The seed of a generator is \<open>hashString\<close> of its run id. When
  seeding resets the library, two builds for the same run id, each on a data directory
  without a file for it, produce the identical dataset whatever the states of the
  random generator and whatever the options, provided both builds run at the same clock
  instant (and on hosts in the same time zone, in which the dates are derived). And
  once a build has stored its dataset, a later construction for the run id, at any
  time and in any time zone, returns the stored dataset and changes nothing.
\<close>

theorem C2_determinism:
  assumes "seed_resets fk"
    and "map_of (files w1) rid = None" and "map_of (files w2) rid = None"
    and "newDataGenerator fk tz rid opts1 now w1 = Inr (g1, w1')"
  shows "g_seed g1 = hashString rid
       \<and> (\<exists>g2 w2'. newDataGenerator fk tz rid opts2 now w2 = Inr (g2, w2')
             \<and> g_seed g2 = g_seed g1 \<and> g_data g2 = g_data g1)
       \<and> (\<exists>g3. newDataGenerator fk tz' rid opts3 now' w1' = Inr (g3, w1')
             \<and> g_seed g3 = g_seed g1 \<and> g_data g3 = g_data g1)"
proof -
  let ?h = "hashString rid"
  from ndg_fresh [OF assms(2,4)] obtain r' where
    b: "generateBaseData fk tz rid ?h now (fk_seed fk ?h (rng w1)) = Inr (g_data g1, r')"
    and w1': "w1' = w1\<lparr>files := AList.update rid (g_data g1) (files w1), rng := r'\<rparr>"
    by blast
  have s: "fk_seed fk ?h (rng w2) = fk_seed fk ?h (rng w1)"
    using assms(1) by (simp add: seed_resets_def)
  have sd: "g_seed g1 = ?h" using ndg_seed [OF assms(4)] by simp
  have two: "\<exists>g2 w2'. newDataGenerator fk tz rid opts2 now w2 = Inr (g2, w2')
             \<and> g_seed g2 = g_seed g1 \<and> g_data g2 = g_data g1"
    using ndg_miss [OF assms(3) b [folded s], of opts2] sd by simp
  have stored: "map_of (files w1') rid = Some (g_data g1)"
    by (simp add: w1' update_conv')
  have three: "\<exists>g3. newDataGenerator fk tz' rid opts3 now' w1' = Inr (g3, w1')
             \<and> g_seed g3 = g_seed g1 \<and> g_data g3 = g_data g1"
    using ndg_hit [OF stored, of fk tz' opts3 now'] sd by simp
  from sd two three show ?thesis by blast
qed

text \<open>Two builds of \<open>claim-001\<close> one day apart differ: each signature date is its
  own generation time.\<close>

theorem C2_determinism_counterexample:
  "signatureDate (dates (g_data exGenerator)) = exNow
   \<and> signatureDate (dates (g_data exGeneratorLater)) = exNow + msPerDay
   \<and> g_data exGenerator \<noteq> g_data exGeneratorLater"
proof -
  have f: "map_of (files exWorld) ''claim-001'' = None" by (simp add: exWorld_def)
  from exGenerator_eq obtain w' where
    a: "newDataGenerator toyFaker exZone ''claim-001'' exOptions exNow exWorld = Inr (exGenerator, w')"
    by blast
  from ndg_total [OF toy_int_in_range, of exZone "''claim-001''" exOptions "exNow + msPerDay" exWorld]
  obtain w'' where
    b: "newDataGenerator toyFaker exZone ''claim-001'' exOptions (exNow + msPerDay) exWorld
          = Inr (exGeneratorLater, w'')"
    by (auto simp: exGeneratorLater_def)
  have s1: "signatureDate (dates (g_data exGenerator)) = exNow"
    using ndg_fresh_signature [OF f a] .
  have s2: "signatureDate (dates (g_data exGeneratorLater)) = exNow + msPerDay"
    using ndg_fresh_signature [OF f b] .
  have "exNow \<noteq> exNow + msPerDay" by (simp add: msPerDay_def)
  with s1 s2 show ?thesis by auto
qed

text \<open>The hypotheses hold for the example library: a build from another generator state
  and a later construction on the stored file give the same dataset.\<close>

theorem C2_determinism_witness:
  "seed_resets toyFaker
   \<and> map_of (files exWorld) ''claim-001'' = None
   \<and> map_of (files (exWorld\<lparr>rng := 12345\<rparr>)) ''claim-001'' = None
   \<and> (\<exists>w'. newDataGenerator toyFaker exZone ''claim-001'' exOptions exNow exWorld = Inr (exGenerator, w')
        \<and> (\<exists>g3. newDataGenerator toyFaker exZone ''claim-001'' exOptions (exNow + msPerDay) w' = Inr (g3, w')
              \<and> g_data g3 = g_data exGenerator))
   \<and> (\<exists>g2 w2'. newDataGenerator toyFaker exZone ''claim-001'' exOptions exNow (exWorld\<lparr>rng := 12345\<rparr>)
          = Inr (g2, w2') \<and> g_data g2 = g_data exGenerator)"
proof -
  have f: "map_of (files exWorld) ''claim-001'' = None"
    and f2: "map_of (files (exWorld\<lparr>rng := 12345\<rparr>)) ''claim-001'' = None"
    by (simp_all add: exWorld_def)
  from exGenerator_eq obtain w' where
    a: "newDataGenerator toyFaker exZone ''claim-001'' exOptions exNow exWorld = Inr (exGenerator, w')"
    by blast
  from C2_determinism [OF toy_seed_resets f f2 a, of exOptions exZone exOptions "exNow + msPerDay"]
    toy_seed_resets f f2 a
  show ?thesis by blast
qed

subsection \<open>C3\<close>

text \<open>
  C3 (as amended). For run id \<open>claim-001\<close>, built on a data directory without a file
  for it and with AI disabled, the seed is \<open>hashString\<close> of the run id, 302753504, and
  \<open>disability.description1\<close> (also the value \<open>getAIValue\<close> resolves for the category
  \<open>disability_description\<close>) is the \<open>line1\<close> of the sample entry whose index is the
  integer that the library draws between 0 and 4 at that point of the stream seeded
  with 302753504. The index is the library's draw, not the hash modulo 5.
\<close>

theorem C3_claim_001_description:
  assumes "int_in_range fk"
    and "map_of (files w) ''claim-001'' = None"
    and "opt_useAI opts \<noteq> Some True"
  shows "\<exists>g w' k. newDataGenerator fk tz ''claim-001'' opts now w = Inr (g, w')
           \<and> g_seed g = hashString ''claim-001''
           \<and> hashString ''claim-001'' = 302753504
           \<and> k = l_disabilityIndex (fst (baseLocals fk tz now (fk_seed fk 302753504 (rng w))))
           \<and> 0 \<le> k \<and> k \<le> 4
           \<and> description1 (disability (g_data g)) = fst (SampleDisabilityDescriptions ! nat k)
           \<and> fst (getAIValue g f p ''disability_description'' w')
               = fst (SampleDisabilityDescriptions ! nat k)"
proof -
  let ?k = "l_disabilityIndex (fst (baseLocals fk tz now (fk_seed fk 302753504 (rng w))))"
  from ndg_total [OF assms(1), of tz "''claim-001''" opts now w] obtain g w' where
    n: "newDataGenerator fk tz ''claim-001'' opts now w = Inr (g, w')"
    by blast
  from ndg_fresh [OF assms(2) n] obtain r' where
    b: "generateBaseData fk tz ''claim-001'' 302753504 now (fk_seed fk 302753504 (rng w))
          = Inr (g_data g, r')"
    unfolding hash_claim_001 by blast
  have k: "0 \<le> ?k" "?k \<le> 4"
    using locals_index_range [OF assms(1), of tz now "fk_seed fk 302753504 (rng w)"] by simp_all
  have "sampleAt ?k = Some (description1 (disability (g_data g)), description2 (disability (g_data g)))"
    using gbd_description [OF b] .
  then have d1: "description1 (disability (g_data g)) = fst (SampleDisabilityDescriptions ! nat ?k)"
    using sampleAt_Some [OF k] by simp
  have "\<not> g_useAI g"
    using ndg_options [OF n] assms(3) by (cases "opt_useAI opts") auto
  then have ai: "fst (getAIValue g f p ''disability_description'' w')
               = fst (SampleDisabilityDescriptions ! nat ?k)"
    by (simp add: getAIValue_disabled d1)
  have sd: "g_seed g = hashString ''claim-001''" using ndg_seed [OF n] by simp
  from n sd hash_claim_001 k d1 ai show ?thesis by blast
qed

text \<open>With the example library the index drawn is 1, while the hash modulo 5 is 4.\<close>

theorem C3_claim_001_description_counterexample:
  "description1 (disability exData) = ''Right knee injury - torn meniscus requiring surgical repair.''
   \<and> fst (SampleDisabilityDescriptions ! nat (hashString ''claim-001'' mod 5))
       = ''Fractured right wrist (distal radius) from fall.''
   \<and> description1 (disability exData)
       \<noteq> fst (SampleDisabilityDescriptions ! nat (hashString ''claim-001'' mod 5))"
proof -
  from exData_build obtain r' where
    b: "generateBaseData toyFaker exZone ''claim-001'' 302753504 exNow 302753504 = Inr (exData, r')"
    by blast
  have "sampleAt 1 = Some (description1 (disability exData), description2 (disability exData))"
    using gbd_description [OF b] unfolding toy_index .
  then have d: "description1 (disability exData)
                  = ''Right knee injury - torn meniscus requiring surgical repair.''"
    by (simp add: sampleAt_def SampleDisabilityDescriptions_def)
  have h: "fst (SampleDisabilityDescriptions ! nat (hashString ''claim-001'' mod 5))
       = ''Fractured right wrist (distal radius) from fall.''"
    by (simp add: hash_claim_001_mod SampleDisabilityDescriptions_def)
  show ?thesis unfolding d h by simp
qed

text \<open>The hypotheses hold for the example library, where the entry selected is the second.\<close>

theorem C3_claim_001_description_witness:
  "int_in_range toyFaker
   \<and> map_of (files exWorld) ''claim-001'' = None
   \<and> opt_useAI exOptions \<noteq> Some True
   \<and> (\<exists>g w'. newDataGenerator toyFaker exZone ''claim-001'' exOptions exNow exWorld = Inr (g, w')
         \<and> description1 (disability (g_data g)) = fst (SampleDisabilityDescriptions ! 1)
         \<and> fst (getAIValue g ''field'' ''prompt'' ''disability_description'' w')
             = fst (SampleDisabilityDescriptions ! 1))"
proof -
  have f: "map_of (files exWorld) ''claim-001'' = None" by (simp add: exWorld_def)
  have o: "opt_useAI exOptions \<noteq> Some True" by (simp add: exOptions_def)
  have s: "fk_seed toyFaker 302753504 (rng exWorld) = 302753504"
    by (simp add: toyFaker_def)
  from C3_claim_001_description [OF toy_int_in_range f o, of exZone exNow "''field''" "''prompt''"]
  show ?thesis
    unfolding s toy_index using toy_int_in_range f o by auto
qed

subsection \<open>C4\<close>

text \<open>
  C4 (as amended). In every dataset that \<open>generateBaseData\<close> returns, the ledger has
  the eight weeks 1 to 8, and \<open>averageWeeklyWage\<close> is computed from the gross amounts
  of the ledger alone, in double-precision arithmetic: the amounts are added from left
  to right starting from 0, the sum is divided by 8, and the quotient is rounded to
  cents by \<open>Math.round(x * 100) / 100\<close>, each operation rounding to the nearest
  double. It is not always the exact mean rounded to cents.
\<close>

theorem C4_average_weekly_wage:
  assumes "generateBaseData fk tz rid sd now r = Inr (d, r')"
  shows "length (weeklyWages (wages d)) = 8
       \<and> map weekNumber (weeklyWages (wages d)) = [1, 2, 3, 4, 5, 6, 7, 8]
       \<and> averageWeeklyWage (wages d)
           = round2 (fdiv (foldl fadd 0 (map grossAmount (weeklyWages (wages d)))) 8)
       \<and> round2 (fdiv (foldl fadd 0 (map grossAmount (weeklyWages (wages d)))) 8)
           = fl (of_int \<lfloor>fl (fl (foldl (\<lambda>s x. fl (s + x)) 0
                   (map grossAmount (weeklyWages (wages d))) / 8) * 100) + 1 / 2\<rfloor> / 100)"
proof -
  from assms obtain loc r20 drw dd where
    loc: "baseLocals fk tz now r = (loc, r20)"
    and d: "d = baseLiteral tz rid sd now loc drw dd"
    by (rule gbd_elim)
  have w: "wages d = \<lparr>weeklyWages = l_weeklyWages loc,
              averageWeeklyWage = round2 (l_averageWeeklyWage loc),
              baseWeeklyWage = l_baseWeeklyWage loc\<rparr>"
    unfolding d baseLiteral_def Let_def by simp
  have up: "[1..8] = [1, 2, 3, 4, 5, 6, 7, (8::int)]"
    by (simp add: upto_rec1)
  have a: "l_averageWeeklyWage loc = fdiv (foldl fadd 0 (map grossAmount (l_weeklyWages loc))) 8"
    and n: "map weekNumber (l_weeklyWages loc) = [1, 2, 3, 4, 5, 6, 7, 8]"
    using locals_wages [of fk tz now r] loc by (simp_all add: foldl_gross up)
  from n have "length (map weekNumber (l_weeklyWages loc)) = 8" by simp
  then have len: "length (l_weeklyWages loc) = 8" by simp
  have f: "fadd = (\<lambda>s x. fl (s + x))"
    by (intro ext) (simp add: fadd_def)
  show ?thesis
    by (simp add: w a n len round2_def round_def fdiv_def fmul_def f)
qed

text \<open>In the example dataset the ledger has four weeks of 804.60 and four of 804.65.
  Their mean is 804.625, which rounds to 804.63; the double-precision mean is just below
  804.625 and the value stored is 804.62.\<close>

theorem C4_average_weekly_wage_counterexample:
  "map grossAmount (weeklyWages (wages exData)) =
     [fl (80460 / 100), fl (80460 / 100), fl (80460 / 100), fl (80460 / 100),
      fl (80465 / 100), fl (80465 / 100), fl (80465 / 100), fl (80465 / 100)]
   \<and> sum_list (map grossAmount (weeklyWages (wages exData))) / 8 = 6437 / 8
   \<and> of_int \<lfloor>sum_list (map grossAmount (weeklyWages (wages exData))) / 8 * 100 + 1 / 2\<rfloor> / 100
        = (80463 / 100 :: rat)
   \<and> averageWeeklyWage (wages exData) = fl (80462 / 100)
   \<and> fl (80462 / 100) = 7077512367529001 / 8796093022208
   \<and> fl (80463 / 100) = 7077600328459223 / 8796093022208
   \<and> averageWeeklyWage (wages exData) \<noteq> fl (80463 / 100)
   \<and> averageWeeklyWage (wages exData)
        \<noteq> of_int \<lfloor>sum_list (map grossAmount (weeklyWages (wages exData))) / 8 * 100 + 1 / 2\<rfloor> / 100"
proof -
  have g: "map grossAmount (weeklyWages (wages exData)) =
     [fl (80460 / 100), fl (80460 / 100), fl (80460 / 100), fl (80460 / 100),
      fl (80465 / 100), fl (80465 / 100), fl (80465 / 100), fl (80465 / 100)]"
    and a: "averageWeeklyWage (wages exData) = fl (80462 / 100)"
    using exData_wages by blast+
  have m: "sum_list (map grossAmount (weeklyWages (wages exData))) / 8 = 6437 / 8"
    unfolding g by (rule toy_mean)
  have r: "of_int \<lfloor>sum_list (map grossAmount (weeklyWages (wages exData))) / 8 * 100 + 1 / 2\<rfloor> / 100
        = (80463 / 100 :: rat)"
    unfolding m by code_simp
  have n1: "averageWeeklyWage (wages exData) \<noteq> fl (80463 / 100)"
    unfolding a by code_simp
  have n2: "averageWeeklyWage (wages exData)
        \<noteq> of_int \<lfloor>sum_list (map grossAmount (weeklyWages (wages exData))) / 8 * 100 + 1 / 2\<rfloor> / 100"
    unfolding a r by code_simp
  from g m r a toy_doubles n1 n2 show ?thesis by blast
qed

text \<open>The hypothesis holds for the example dataset.\<close>

theorem C4_average_weekly_wage_witness:
  "(\<exists>r'. generateBaseData toyFaker exZone ''claim-001'' 302753504 exNow 302753504
           = Inr (exData, r'))
   \<and> length (weeklyWages (wages exData)) = 8
   \<and> averageWeeklyWage (wages exData)
       = round2 (fdiv (foldl fadd 0 (map grossAmount (weeklyWages (wages exData)))) 8)
   \<and> averageWeeklyWage (wages exData) = fl (80462 / 100)"
proof -
  from exData_build obtain r' where
    b: "generateBaseData toyFaker exZone ''claim-001'' 302753504 exNow 302753504 = Inr (exData, r')"
    by blast
  from C4_average_weekly_wage [OF b] b exData_wages show ?thesis by blast
qed

subsection \<open>C5\<close>

text \<open>
  C5. After \<open>setMultiWidgetCheckboxValue\<close> has applied a target value, every widget
  whose on-value is not the target has appearance state \<open>Off\<close>, every widget is either
  \<open>Off\<close> or shows the target, and so at most one on-state is active on the field.
\<close>

theorem C5_widget_exclusivity:
  "(\<forall>i < length (widgets cb).
       firstOnValue ovs i \<noteq> Some t \<longrightarrow>
       appearanceState (widgets (setMultiWidgetCheckboxValue cb t ovs) ! i) = ''Off'')
   \<and> (\<forall>i < length (widgets cb).
       appearanceState (widgets (setMultiWidgetCheckboxValue cb t ovs) ! i) \<in> {t, ''Off''})
   \<and> activeStates (setMultiWidgetCheckboxValue cb t ovs) \<subseteq> {t}
   \<and> card (activeStates (setMultiWidgetCheckboxValue cb t ovs)) \<le> 1"
proof -
  have "card (activeStates (setMultiWidgetCheckboxValue cb t ovs)) \<le> card {t}"
    by (rule card_mono) (simp_all add: activeStates_setMulti)
  then show ?thesis
    by (simp add: setMulti_nth activeStates_setMulti)
qed

text \<open>Selecting \<open>No\<close> on the Yes/No field turns the Yes widget off.\<close>

theorem C5_widget_exclusivity_witness:
  "appearanceState (widgets (setMultiWidgetCheckboxValue exYesNo ''No''
       (getCheckboxOnValues exYesNo)) ! 0) = ''Off''
   \<and> activeStates (setMultiWidgetCheckboxValue exYesNo ''No'' (getCheckboxOnValues exYesNo))
        \<subseteq> {''No''}"
proof -
  have len: "length (widgets exYesNo) = 2"
    by (simp add: exYesNo_def)
  have first: "firstOnValue (getCheckboxOnValues exYesNo) 0 \<noteq> Some ''No''"
    by (simp add: exYesNo_onValues firstOnValue_def)
  from C5_widget_exclusivity [of exYesNo "getCheckboxOnValues exYesNo" "''No''"] len first
  show ?thesis by simp
qed

subsection \<open>C6\<close>

text \<open>
  C6. On a checkbox field whose on-values contain both \<open>Yes\<close> and \<open>No\<close> and whose
  mapping is a boolean checkbox, applying the logical value \<open>b\<close> sets the field value
  to \<open>No\<close> for false and \<open>Yes\<close> for true, gives that appearance state to every widget
  whose on-value is the selected state, and sets every other widget to \<open>Off\<close>; when
  each widget reports one on-state, a widget showing the selected state exists.
\<close>

theorem C6_yes_no_selection:
  assumes "isYesNoCheckbox (getCheckboxOnValues cb)"
  shows "\<exists>cb' f. applyCheckBox lib False (JBool b) cb = Inr (cb', f)
           \<and> fieldV cb' = Some (if b then ''Yes'' else ''No'')
           \<and> length (widgets cb') = length (widgets cb)
           \<and> (\<forall>i < length (widgets cb).
                 appearanceState (widgets cb' ! i) =
                   (if firstOnValue (getCheckboxOnValues cb) i = Some (if b then ''Yes'' else ''No'')
                    then (if b then ''Yes'' else ''No'') else ''Off''))
           \<and> (distinct (map fst (getCheckboxOnValues cb)) \<longrightarrow>
                (\<exists>i < length (widgets cb).
                   appearanceState (widgets cb' ! i) = (if b then ''Yes'' else ''No'')))"
proof -
  let ?ovs = "getCheckboxOnValues cb"
  let ?t = "if b then ''Yes'' else ''No''"
  let ?cb' = "setMultiWidgetCheckboxValue cb ?t ?ovs"
  have app: "applyCheckBox lib False (JBool b) cb = Inr (?cb', Some (?t, ''checkbox-yesno''))"
    using assms by (simp add: applyCheckBox_def Let_def)
  have ex: "\<exists>i. (i, ?t) \<in> set ?ovs"
    using assms by (auto simp: isYesNoCheckbox_def list_ex_iff)
  have last: "distinct (map fst ?ovs) \<longrightarrow>
        (\<exists>i < length (widgets cb). appearanceState (widgets ?cb' ! i) = ?t)"
  proof
    assume d: "distinct (map fst ?ovs)"
    from ex obtain i where i: "(i, ?t) \<in> set ?ovs" by blast
    then have "i < length (widgets cb)" by (rule onValues_index)
    moreover have "firstOnValue ?ovs i = Some ?t"
      using d i by (rule firstOnValue_distinct)
    ultimately show "\<exists>i < length (widgets cb). appearanceState (widgets ?cb' ! i) = ?t"
      using setMulti_nth [of i cb ?t ?ovs] by auto
  qed
  show ?thesis
    apply (rule exI [of _ ?cb'])
    apply (rule exI [of _ "Some (?t, ''checkbox-yesno'')"])
    using app last by (simp add: setMulti_fieldV setMulti_length setMulti_nth)
qed

text \<open>Applying false to the Yes/No field selects \<open>No\<close> and turns \<open>Yes\<close> off.\<close>

theorem C6_yes_no_selection_witness:
  "isYesNoCheckbox (getCheckboxOnValues exYesNo)
   \<and> (\<exists>cb' f. applyCheckBox exLib False (JBool False) exYesNo = Inr (cb', f)
        \<and> fieldV cb' = Some ''No''
        \<and> appearanceState (widgets cb' ! 0) = ''Off''
        \<and> appearanceState (widgets cb' ! 1) = ''No'')"
proof -
  have yn: "isYesNoCheckbox (getCheckboxOnValues exYesNo)"
    by (simp add: exYesNo_onValues isYesNoCheckbox_def)
  have len: "length (widgets exYesNo) = 2"
    by (simp add: exYesNo_def)
  from C6_yes_no_selection [OF yn, of exLib False]
  obtain cb' f where a: "applyCheckBox exLib False (JBool False) exYesNo = Inr (cb', f)"
    and v: "fieldV cb' = Some ''No''"
    and w: "\<forall>i < length (widgets exYesNo).
                 appearanceState (widgets cb' ! i) =
                   (if firstOnValue (getCheckboxOnValues exYesNo) i = Some ''No''
                    then ''No'' else ''Off'')"
    by auto
  from w len have "appearanceState (widgets cb' ! 0) = ''Off''"
    and "appearanceState (widgets cb' ! 1) = ''No''"
    by (simp_all add: exYesNo_onValues firstOnValue_def)
  with yn a v show ?thesis by blast
qed

subsection \<open>C7\<close>

text \<open>
  C7 (as amended). With AI enabled and a callback present, when a call of
  \<open>getAIValue\<close> for a category returns a non-empty string, the next call for the same
  category (whatever its field name and prompt) returns the identical string from the
  cache and does not invoke the backend: the invocation log and the backend state are
  unchanged, and the two calls together invoke the backend at most once. An empty
  string stored for the category is not a cache hit.
\<close>

theorem C7_ai_cache:
  assumes "g_useAI g" and "g_aiCallback g = Some cb"
    and "getAIValue g f1 p1 c w = (s1, g1, w1)"
    and "s1 \<noteq> []"
    and "getAIValue g1 f2 p2 c w1 = (s2, g2, w2)"
  shows "s2 = s1 \<and> aiLog w2 = aiLog w1 \<and> backend w2 = backend w1
       \<and> length (aiLog w2) \<le> length (aiLog w) + 1"
proof -
  from getAIValue_first [OF assms(1,2,3)] assms(4) obtain content where
    g1: "g_useAI g1" "g_aiCallback g1 = Some cb"
    and c: "aiContent (g_data g1) = Some content" "cachedContent content c = Some s1"
    and l: "length (aiLog w1) \<le> length (aiLog w) + 1"
    by blast
  from getAIValue_hit [OF g1 c, of f2 p2 w1] assms(5)
  have "s2 = s1" "w2 = w1" by simp_all
  with l show ?thesis by simp
qed

text \<open>A backend that fails once: the first call returns the empty string, the second call
  invokes the backend again and returns a different string.\<close>

theorem C7_ai_cache_counterexample:
  "fst (getAIValue exGeneratorAI ''field'' ''prompt'' ''disability_description'' exWorld) = []
   \<and> fst (getAIValue
        (fst (snd (getAIValue exGeneratorAI ''field'' ''prompt'' ''disability_description'' exWorld)))
        ''field'' ''prompt'' ''disability_description''
        (snd (snd (getAIValue exGeneratorAI ''field'' ''prompt'' ''disability_description'' exWorld))))
       = ''Generated text 1''
   \<and> aiLog (snd (snd (getAIValue
        (fst (snd (getAIValue exGeneratorAI ''field'' ''prompt'' ''disability_description'' exWorld)))
        ''field'' ''prompt'' ''disability_description''
        (snd (snd (getAIValue exGeneratorAI ''field'' ''prompt'' ''disability_description'' exWorld))))))
       = [(''prompt'', ''disability_description''), (''prompt'', ''disability_description'')]"
proof -
  let ?g1 = "exGeneratorAI\<lparr>g_data := (g_data exGeneratorAI)\<lparr>aiContent :=
              Some [(''disability_description'', [])]\<rparr>\<rparr>"
  let ?w1 = "saveData ?g1 (exWorld\<lparr>backend := 1, aiLog := [(''prompt'', ''disability_description'')]\<rparr>)"
  have g1: "g_useAI ?g1" "g_aiCallback ?g1 = Some exCallback"
    by (simp_all add: exGeneratorAI_facts)
  have m: "cachedContent (case aiContent (g_data ?g1) of None \<Rightarrow> [] | Some x \<Rightarrow> x)
             ''disability_description'' = None"
    by (simp add: cachedContent_def)
  have sn: "showNat (Suc 0) = ''1''" by (subst showNat.simps) (simp add: digitChar_def)
  have second: "fst (getAIValue ?g1 ''field'' ''prompt'' ''disability_description'' ?w1) = ''Generated text 1''"
    "aiLog (snd (snd (getAIValue ?g1 ''field'' ''prompt'' ''disability_description'' ?w1)))
       = [(''prompt'', ''disability_description''), (''prompt'', ''disability_description'')]"
    unfolding getAIValue_miss [OF g1 m]
    by (simp_all add: Let_def exCallback_def saveData_def exWorld_def sn)
  show ?thesis unfolding ex_first_down using second by simp
qed

text \<open>With a backend that answers, the second call returns the first call's string.\<close>

theorem C7_ai_cache_witness:
  "g_useAI exGeneratorAI \<and> g_aiCallback exGeneratorAI = Some exCallback
   \<and> fst (getAIValue exGeneratorAI ''field'' ''prompt'' ''disability_description'' exWorldUp) \<noteq> []
   \<and> fst (getAIValue
        (fst (snd (getAIValue exGeneratorAI ''field'' ''prompt'' ''disability_description'' exWorldUp)))
        ''field2'' ''prompt2'' ''disability_description''
        (snd (snd (getAIValue exGeneratorAI ''field'' ''prompt'' ''disability_description'' exWorldUp))))
       = fst (getAIValue exGeneratorAI ''field'' ''prompt'' ''disability_description'' exWorldUp)"
proof -
  obtain s1 g1 w1 where
    a: "getAIValue exGeneratorAI ''field'' ''prompt'' ''disability_description'' exWorldUp = (s1, g1, w1)"
    by (cases "getAIValue exGeneratorAI ''field'' ''prompt'' ''disability_description'' exWorldUp")
  obtain s2 g2 w2 where
    b: "getAIValue g1 ''field2'' ''prompt2'' ''disability_description'' w1 = (s2, g2, w2)"
    by (cases "getAIValue g1 ''field2'' ''prompt2'' ''disability_description'' w1")
  have m: "cachedContent (case aiContent (g_data exGeneratorAI) of None \<Rightarrow> [] | Some x \<Rightarrow> x)
             ''disability_description'' = None"
    by (simp add: exGeneratorAI_facts cachedContent_def)
  have ne: "s1 \<noteq> []"
    using a unfolding getAIValue_miss [OF exGeneratorAI_facts(1,2) m]
    by (auto simp: Let_def exCallback_def exWorldUp_def exWorld_def)
  from C7_ai_cache [OF exGeneratorAI_facts(1,2) a ne b] a b ne exGeneratorAI_facts(1,2)
  show ?thesis by simp
qed

subsection \<open>C8\<close>




subsection \<open>C9\<close>

text \<open>
  C9. \<open>getFakerValue\<close> re-seeds the library with the base seed of the dataset and
  then draws: when the method names a function of the library, the value returned and
  the state left are those of that function applied to the arguments in the state that
  seeding with the base seed produces (the empty string when the function throws).
  When seeding resets the generator, the result is therefore the same from every state
  of the generator and for every generator object with the same base seed; so resolving
  a descriptor again, after any other draw, gives the same value.
\<close>

theorem C9_faker_value_reseeded:
  assumes "seed_resets fk" and "g_seed g = g_seed g'"
  shows "getFakerValue fk g m args r = getFakerValue fk g' m args r'
       \<and> fst (getFakerValue fk g m args (snd (getFakerValue fk g m' args' r)))
           = fst (getFakerValue fk g m args r)
       \<and> (\<forall>f. resolvePath (fk_root fk) (splitOn CHR ''.'' m) = Some (Callable f) \<longrightarrow>
              getFakerValue fk g m args r =
                (case f args (fk_seed fk (g_seed g) r0) of
                   (Some v, r2) \<Rightarrow> (v, r2)
                 | (None, r2) \<Rightarrow> (JStr [], r2)))
       \<and> (resolvePath (fk_root fk) (splitOn CHR ''.'' m) = None \<longrightarrow>
              getFakerValue fk g m args r = (JStr [], fk_seed fk (g_seed g) r0))"
proof -
  have s: "fk_seed fk n x = fk_seed fk n y" for n x y
    using assms(1) by (simp add: seed_resets_def)
  have a: "getFakerValue fk g m args x = getFakerValue fk g' m args y" for x y
    unfolding getFakerValue_def Let_def assms(2) s [of "g_seed g'" x y] ..
  have b: "getFakerValue fk g m args x = getFakerValue fk g m args y" for x y
    unfolding getFakerValue_def Let_def s [of "g_seed g" x y] ..
  have c: "getFakerValue fk g m args r =
             (case f args (fk_seed fk (g_seed g) r0) of
                (Some v, r2) \<Rightarrow> (v, r2)
              | (None, r2) \<Rightarrow> (JStr [], r2))"
    if "resolvePath (fk_root fk) (splitOn CHR ''.'' m) = Some (Callable f)" for f
    using that by (simp add: getFakerValue_def Let_def s [of "g_seed g" r r0])
  have d: "getFakerValue fk g m args r = (JStr [], fk_seed fk (g_seed g) r0)"
    if "resolvePath (fk_root fk) (splitOn CHR ''.'' m) = None"
    using that by (simp add: getFakerValue_def Let_def s [of "g_seed g" r r0])
  show ?thesis
    using a [of r r'] b [of "snd (getFakerValue fk g m' args' r)" r] c d by simp
qed

text \<open>The hypotheses hold for the example library, whose first name is drawn from the
  counter: resolved for the example generator, whose base seed is 302753504, from any
  state and after another draw, it is the name numbered 302753504, and the state left
  is the next one.\<close>

theorem C9_faker_value_reseeded_witness:
  "seed_resets toyFaker
   \<and> g_seed exGenerator = 302753504
   \<and> resolvePath (fk_root toyFaker) (splitOn CHR ''.'' ''person.firstName'')
        = Some (Callable (\<lambda>args r. (Some (JStr (''Ada-'' @ showNat r)), Suc r)))
   \<and> getFakerValue toyFaker exGenerator ''person.firstName'' [] 5
        = (JStr ''Ada-302753504'', 302753505)
   \<and> getFakerValue toyFaker exGenerator ''person.firstName'' [] 5
       = getFakerValue toyFaker exGenerator ''person.firstName'' [] 77
   \<and> fst (getFakerValue toyFaker exGenerator ''person.firstName'' []
        (snd (getFakerValue toyFaker exGenerator ''number.int''
           [JObj [(''min'', JNum 4), (''max'', JNum 5)]] 5)))
       = fst (getFakerValue toyFaker exGenerator ''person.firstName'' [] 5)"
proof -
  from exGenerator_eq obtain w' where
    e: "newDataGenerator toyFaker exZone ''claim-001'' exOptions exNow exWorld
          = Inr (exGenerator, w')"
    by blast
  have sd: "g_seed exGenerator = 302753504"
    using ndg_seed [OF e] by (simp add: hash_claim_001)
  have rp: "resolvePath (fk_root toyFaker) (splitOn CHR ''.'' ''person.firstName'')
        = Some (Callable (\<lambda>args r. (Some (JStr (''Ada-'' @ showNat r)), Suc r)))"
    by (simp add: toyFaker_def)
  have sn: "showNat 302753504 = ''302753504''"
    by (simp add: showNat.simps digitChar_def)
  have st: "fk_seed toyFaker 302753504 0 = 302753504"
    by (simp add: toyFaker_def)
  note c = C9_faker_value_reseeded [OF toy_seed_resets refl,
      of exGenerator "''person.firstName''" "[]" 5 77 "''number.int''"
         "[JObj [(''min'', JNum 4), (''max'', JNum 5)]]" 0]
  have c1: "getFakerValue toyFaker exGenerator ''person.firstName'' [] 5
       = getFakerValue toyFaker exGenerator ''person.firstName'' [] 77"
    and c2: "fst (getFakerValue toyFaker exGenerator ''person.firstName'' []
        (snd (getFakerValue toyFaker exGenerator ''number.int''
           [JObj [(''min'', JNum 4), (''max'', JNum 5)]] 5)))
       = fst (getFakerValue toyFaker exGenerator ''person.firstName'' [] 5)"
    using c by blast+
  have "getFakerValue toyFaker exGenerator ''person.firstName'' [] 5 =
          (case (Some (JStr (''Ada-'' @ showNat (fk_seed toyFaker (g_seed exGenerator) 0))),
                 Suc (fk_seed toyFaker (g_seed exGenerator) 0)) of
             (Some v, r2) \<Rightarrow> (v, r2)
           | (None, r2) \<Rightarrow> (JStr [], r2))"
    using c rp by blast
  then have c3: "getFakerValue toyFaker exGenerator ''person.firstName'' [] 5
        = (JStr ''Ada-302753504'', 302753505)"
    unfolding sd st sn by simp
  from toy_seed_resets sd rp c3 c1 c2 show ?thesis by blast
qed

subsection \<open>C10\<close>

text \<open>
  C10. For every dataset the checking-account checkbox resolves to the stored
  \<open>checkingAccount\<close> state and the savings-account checkbox to its negation, whatever
  probabilities the catalogue passes; so exactly one of the two is checked. Neither
  resolution draws from the random generator.
\<close>

theorem C10_account_checkboxes:
  "getCheckboxValue fk g ''4 Checking account'' p r = (checkingAccount (checkboxes (g_data g)), r)
   \<and> getCheckboxValue fk g ''4 Savings account'' q r' =
        (\<not> checkingAccount (checkboxes (g_data g)), r')
   \<and> fst (getCheckboxValue fk g ''4 Checking account'' p r)
        \<noteq> fst (getCheckboxValue fk g ''4 Savings account'' q r')"
  by (simp add: getCheckboxValue_def checkboxMap_def)

end
